theory Spec2Isabelle
  imports Complex_Main
begin

section \<open>Retry policy and backoff (engine/backoff.go)\<close>

text \<open>
  \<^verbatim>\<open>xdbapi.RetryPolicy\<close>: every field is a pointer, so every field may be unset.
  The \<^verbatim>\<open>int32\<close> fields are integers, the \<^verbatim>\<open>float32\<close> coefficient is the
  rational number it denotes (a policy arrives as JSON, where every number is finite).
\<close>

record RetryPolicy =
  InitialIntervalSeconds :: "int option"
  BackoffCoefficient :: "rat option"
  MaximumIntervalSeconds :: "int option"
  MaximumAttempts :: "int option"
  MaximumAttemptsDurationSeconds :: "int option"

text \<open>The policy after \<^verbatim>\<open>setDefaultRetryPolicyValue\<close>: no field is nil any more.\<close>

record RetryPolicyValue =
  initialIntervalSeconds :: int
  backoffCoefficient :: rat
  maximumIntervalSeconds :: int
  maximumAttempts :: int
  maximumAttemptsDurationSeconds :: int

text \<open>
  Modelled from the spec: \<^verbatim>\<open>defaultWorkerTaskBackoffRetryPolicy\<close> is declared outside
  the sources at hand. Section 4.H gives its values: \<^verbatim>\<open>InitialInterval=1\<close>,
  \<^verbatim>\<open>Coefficient=2.0\<close>, \<^verbatim>\<open>MaximumInterval=60\<close>, \<^verbatim>\<open>MaximumAttempts=0\<close>,
  \<^verbatim>\<open>MaximumAttemptsDuration=0\<close>.
\<close>

definition defaultWorkerTaskBackoffRetryPolicy :: RetryPolicyValue where
  "defaultWorkerTaskBackoffRetryPolicy =
     \<lparr>initialIntervalSeconds = 1, backoffCoefficient = 2, maximumIntervalSeconds = 60,
      maximumAttempts = 0, maximumAttemptsDurationSeconds = 0\<rparr>"

definition orDefault :: "'a option \<Rightarrow> 'a \<Rightarrow> 'a" where
  "orDefault p d = (case p of None \<Rightarrow> d | Some v \<Rightarrow> v)"

definition setDefaultRetryPolicyValue :: "RetryPolicy option \<Rightarrow> RetryPolicyValue" where
  "setDefaultRetryPolicyValue policy =
     (let p = (case policy of
                 None \<Rightarrow> \<lparr>InitialIntervalSeconds = None, BackoffCoefficient = None,
                           MaximumIntervalSeconds = None, MaximumAttempts = None,
                           MaximumAttemptsDurationSeconds = None\<rparr>
               | Some q \<Rightarrow> q);
          d = defaultWorkerTaskBackoffRetryPolicy
      in \<lparr>initialIntervalSeconds = orDefault (InitialIntervalSeconds p) (initialIntervalSeconds d),
          backoffCoefficient = orDefault (BackoffCoefficient p) (backoffCoefficient d),
          maximumIntervalSeconds = orDefault (MaximumIntervalSeconds p) (maximumIntervalSeconds d),
          maximumAttempts = orDefault (MaximumAttempts p) (maximumAttempts d),
          maximumAttemptsDurationSeconds =
            orDefault (MaximumAttemptsDurationSeconds p) (maximumAttemptsDurationSeconds d)\<rparr>)"

subsection \<open>The arithmetic of Go that the backoff uses\<close>

text \<open>
  \<^verbatim>\<open>int64\<close> addition wraps around: \<open>int64\<close> brings a mathematical sum back into
  the range of the type.
\<close>

definition int64 :: "int \<Rightarrow> int" where
  "int64 x = (x + 2 ^ 63) mod 2 ^ 64 - 2 ^ 63"

text \<open>
  \<^verbatim>\<open>int32\<close> conversion of an integer keeps the low 32 bits.
\<close>

definition int32 :: "int \<Rightarrow> int" where
  "int32 x = (x + 2 ^ 31) mod 2 ^ 32 - 2 ^ 31"

text \<open>
  A \<^verbatim>\<open>float64\<close> is either the rational it denotes or one of the infinities and NaN.
  The model fixes a result of float64 arithmetic only where the language or the library
  fixes it as an exact value: a product that is itself a float64 value, a power that the
  documentation of \<^verbatim>\<open>math.Pow\<close> lists as a special case, a conversion to \<^verbatim>\<open>int32\<close>
  that fits the type. Every other result (a rounded product, an overflow to infinity, a
  power computed by the library, a conversion out of range) is left open: it is read from
  a \<open>float64_machine\<close>, which the functions below take as a parameter, so that what is
  proved for every machine holds for the one that runs the code.
\<close>

datatype float64 = Finite rat | NonFinite

record float64_machine =
  pow_result :: "rat \<Rightarrow> int \<Rightarrow> float64"
  mul_result :: "rat \<Rightarrow> rat \<Rightarrow> float64"
  int32_result :: "float64 \<Rightarrow> int"

text \<open>
  A sufficient test for being a float64 value: in lowest terms the numerator is below
  \<open>2 ^ 53\<close> in absolute value and the denominator is a power of two, at most
  \<open>2 ^ 1074\<close>.
\<close>

definition exact_float64 :: "rat \<Rightarrow> bool" where
  "exact_float64 q =
     (case quotient_of q of (n, d) \<Rightarrow> \<bar>n\<bar> < 2 ^ 53 \<and> d dvd 2 ^ 1074)"

text \<open>
  The product of two float64 values is the exact product rounded; it is the exact product
  when that is a float64 value. A product with an infinity or a NaN is an infinity or a
  NaN.
\<close>

fun fmul :: "float64_machine \<Rightarrow> float64 \<Rightarrow> float64 \<Rightarrow> float64" where
  "fmul m (Finite a) (Finite b) =
     (if exact_float64 (a * b) then Finite (a * b) else mul_result m a b)"
| "fmul m _ _ = NonFinite"

text \<open>
  \<^verbatim>\<open>math.Pow(x, y)\<close> at a finite \<open>x\<close> and an integral \<open>y\<close>. The special cases of its
  documentation, in its order: \<^verbatim>\<open>Pow(x, 0) = 1\<close>, \<^verbatim>\<open>Pow(1, y) = 1\<close>,
  \<^verbatim>\<open>Pow(x, 1) = x\<close>, \<^verbatim>\<open>Pow(0, y) = Inf\<close> for \<^verbatim>\<open>y < 0\<close> and \<^verbatim>\<open>Pow(0, y) = 0\<close> for
  \<^verbatim>\<open>y > 0\<close>. Every other power is the library's result.
\<close>

definition math_Pow :: "float64_machine \<Rightarrow> rat \<Rightarrow> int \<Rightarrow> float64" where
  "math_Pow m x y =
     (if y = 0 \<or> x = 1 then Finite 1
      else if y = 1 then Finite x
      else if x = 0 then (if y < 0 then NonFinite else Finite 0)
      else pow_result m x y)"

definition trunc_toward_zero :: "rat \<Rightarrow> int" where
  "trunc_toward_zero q = (if 0 \<le> q then \<lfloor>q\<rfloor> else \<lceil>q\<rceil>)"

text \<open>
  The conversion \<^verbatim>\<open>int32(f)\<close> discards the fraction. Where the value does not fit
  the type the Go specification leaves the result to the implementation.
\<close>

definition int32_of_float64 :: "float64_machine \<Rightarrow> float64 \<Rightarrow> int" where
  "int32_of_float64 m f =
     (case f of
        NonFinite \<Rightarrow> int32_result m f
      | Finite q \<Rightarrow>
          (if - (2 ^ 31) \<le> trunc_toward_zero q \<and> trunc_toward_zero q < 2 ^ 31
           then trunc_toward_zero q
           else int32_result m f))"

subsection \<open>GetNextBackoff\<close>

text \<open>
  \<open>nowSeconds\<close> is the reading of \<^verbatim>\<open>time.Now().Unix()\<close>. The result is the pair
  \<open>(nextBackoffSeconds, shouldRetry)\<close>.
\<close>

definition GetNextBackoff ::
  "float64_machine \<Rightarrow> int \<Rightarrow> int \<Rightarrow> int \<Rightarrow> RetryPolicy option \<Rightarrow> int \<times> bool" where
  "GetNextBackoff m nowSeconds completedAttempts firstAttemptStartTimestampSeconds policy0 =
     (let policy = setDefaultRetryPolicyValue policy0 in
      if maximumAttempts policy > 0 \<and> completedAttempts \<ge> maximumAttempts policy
      then (0, False)
      else if maximumAttemptsDurationSeconds policy > 0 \<and>
              int64 (firstAttemptStartTimestampSeconds + maximumAttemptsDurationSeconds policy)
                < nowSeconds
      then (0, False)
      else
        (let initInterval = initialIntervalSeconds policy;
             nextInterval =
               int32_of_float64 m
                 (fmul m (Finite (of_int initInterval))
                       (math_Pow m (backoffCoefficient policy) completedAttempts))
         in if nextInterval > maximumIntervalSeconds policy
            then (maximumIntervalSeconds policy, True)
            else (nextInterval, True)))"


section \<open>Rows and tables (extensions)\<close>

text \<open>
  The sources come from several revisions of the repository, so the row types are
  read off their uses: a field is part of a row when some source at hand reads or
  writes it. A state-execution row therefore carries the two phase statuses that
  \<^verbatim>\<open>transactional.go\<close> and \<^verbatim>\<open>insertAsyncStateExecution\<close> write, and the
  \<^verbatim>\<open>Status\<close> that \<^verbatim>\<open>complete_execute.go\<close> and \<^verbatim>\<open>wait_until.go\<close> write.
  Field names carry a prefix of their record, since several rows share names.
\<close>

type_synonym uuid = string

text \<open>
  Modelled from the spec: the status types are declared outside the sources at hand.
  Section 3 lists the statuses of a process, sections 3 and 4.C those of a state
  execution; the sources name the constants.
\<close>

datatype ProcessExecutionStatus =
    ProcessExecutionStatusRunning
  | ProcessExecutionStatusCompleted
  | ProcessExecutionStatusFailed
  | ProcessExecutionStatusTerminated
  | ProcessExecutionStatusTimeout

text \<open>
  In the stored encoding \<^verbatim>\<open>Running\<close> is 1 and
  \<^verbatim>\<open>Aborted\<close> is 5 (section 6 of the spec); the batch query writes these two numbers.
\<close>

datatype StateExecutionStatus =
    StateExecutionStatusUndefined
  | StateExecutionStatusRunning
  | StateExecutionStatusWaiting
  | StateExecutionStatusCompleted
  | StateExecutionStatusSkipped
  | StateExecutionStatusAborted
  | StateExecutionStatusFailed
  | StateExecutionStatusWaitUntilWaiting
  | StateExecutionStatusExecuteRunning

datatype ImmediateTaskType =
    ImmediateTaskTypeWaitUntil
  | ImmediateTaskTypeExecute
  | ImmediateTaskTypeNewLocalQueueMessage

record AsyncStateConfig =
  SkipWaitUntil :: "bool option"
  WaitUntilApiTimeoutSeconds :: "int option"
  ExecuteApiTimeoutSeconds :: "int option"
  WaitUntilApiRetryPolicy :: "RetryPolicy option"
  ExecuteApiRetryPolicy :: "RetryPolicy option"

text \<open>The generated getter: false on a nil receiver and on an unset field.\<close>

definition GetSkipWaitUntil :: "AsyncStateConfig option \<Rightarrow> bool" where
  "GetSkipWaitUntil c =
     (case c of None \<Rightarrow> False
      | Some o' \<Rightarrow> (case SkipWaitUntil o' of None \<Rightarrow> False | Some b \<Rightarrow> b))"

record AsyncStateExecutionInfoJson =
  info_Namespace :: string
  info_ProcessId :: string
  info_ProcessType :: string
  info_WorkerURL :: string
  info_StateConfig :: "AsyncStateConfig option"

record AsyncStateExecutionRow =
  se_ProcessExecutionId :: uuid
  se_StateId :: string
  se_StateIdSequence :: int
  se_Version :: int
  se_Status :: StateExecutionStatus
  se_WaitUntilStatus :: StateExecutionStatus
  se_ExecuteStatus :: StateExecutionStatus
  se_LastFailure :: "string option"
  se_Input :: string
  se_Info :: AsyncStateExecutionInfoJson

text \<open>
  A command request of \<^verbatim>\<open>xdbapi\<close> and the results stored beside it; the blobs
  that carry them are held as the values they encode.
\<close>

datatype CommandWaitingType = EMPTY_COMMAND | ANY_OF_COMPLETION | ALL_OF_COMPLETION

record CommandRequest =
  WaitingType :: CommandWaitingType
  TimerCommands :: "int list"
  LocalQueueCommands :: "string list"

record CommandResults =
  TimerResults :: "bool list"
  LocalQueueResults :: "string list"

record AsyncStateExecutionRowForUpdate =
  su_ProcessExecutionId :: uuid
  su_StateId :: string
  su_StateIdSequence :: int
  su_Status :: StateExecutionStatus
  su_WaitUntilStatus :: StateExecutionStatus
  su_ExecuteStatus :: StateExecutionStatus
  su_WaitUntilCommands :: CommandRequest
  su_WaitUntilCommandResults :: CommandResults
  su_LastFailure :: "string option"
  su_PreviousVersion :: int

record AsyncStateExecutionRowForUpdateWithoutCommands =
  sw_ProcessExecutionId :: uuid
  sw_StateId :: string
  sw_StateIdSequence :: int
  sw_Status :: StateExecutionStatus
  sw_PreviousVersion :: int
  sw_LastFailure :: "string option"

text \<open>
  The \<^verbatim>\<open>Info\<close> blob of an immediate task is held as the value it encodes. A dedup
  id of \<open>None\<close> stands for the id that \<^verbatim>\<open>uuid.MustNewUUID\<close> mints.
\<close>

record LocalQueueMessageInfoJson =
  lqi_QueueName :: string
  lqi_DedupId :: "uuid option"

record ImmediateTaskRowForInsert =
  it_ShardId :: int
  it_TaskType :: ImmediateTaskType
  it_ProcessExecutionId :: uuid
  it_StateId :: string
  it_StateIdSequence :: int
  it_Info :: "LocalQueueMessageInfoJson option"

record LatestProcessExecutionRow =
  lp_Namespace :: string
  lp_ProcessId :: string
  lp_ProcessExecutionId :: uuid

record LocalQueueRow =
  lq_ProcessExecutionId :: uuid
  lq_QueueName :: string
  lq_DedupId :: "uuid option"
  lq_Payload :: string


record TimerTaskRowForInsert =
  tt_ShardId :: int
  tt_FireTimeUnixSeconds :: int
  tt_TaskType :: ImmediateTaskType
  tt_ProcessExecutionId :: uuid
  tt_StateId :: string
  tt_StateIdSequence :: int
  tt_Info :: string

text \<open>
  Modelled from the spec: \<^verbatim>\<open>StateExecutionSequenceMaps\<close> and its methods are declared
  outside the sources at hand. Section 3 describes the pending-execution map as
  "state-id to set of active state-id-sequences" and section 4.C speaks of "a per-state-id
  counter". The counter is a function with Go's default 0; the pending map is held as the
  set of its (state id, sequence) pairs, so that it has length 0 exactly when no state
  execution is pending. The serialised blob on the process row is held as the value it
  encodes (the spec states that decoding after encoding is the identity).
\<close>

record StateExecutionSequenceMaps =
  SequenceMap :: "string \<Rightarrow> int"
  PendingExecutionMap :: "(string \<times> int) set"

record ProcessExecutionInfoJson =
  pinfo_ProcessType :: string
  pinfo_WorkerURL :: string

record ProcessExecutionRow =
  pe_ProcessExecutionId :: uuid
  pe_Namespace :: string
  pe_ProcessId :: string
  pe_IsCurrent :: bool
  pe_Status :: ProcessExecutionStatus
  pe_HistoryEventIdSequence :: int
  pe_StateIdSequence :: "string \<Rightarrow> int"
  pe_StateExecutionSequenceMaps :: StateExecutionSequenceMaps
  pe_StateExecutionWaitingQueues :: string
  pe_WaitToComplete :: bool
  pe_StartTime :: int
  pe_TimeoutSeconds :: int
  pe_Info :: ProcessExecutionInfoJson

record ProcessExecutionRowForUpdate =
  pu_ProcessExecutionId :: uuid
  pu_Status :: ProcessExecutionStatus
  pu_HistoryEventIdSequence :: int
  pu_StateExecutionSequenceMaps :: StateExecutionSequenceMaps
  pu_StateExecutionWaitingQueues :: string
  pu_WaitToComplete :: bool

text \<open>
  The database: one list of rows per table, in insertion order. The position of a task
  in its list stands for the \<^verbatim>\<open>task_sequence\<close> that the database assigns. A
  transaction works on a copy of the database: commit makes the copy the database,
  rollback drops it. Failures of the driver itself (lost connection, timeout) are not
  part of the model; every error below is decided by the data.
\<close>

record database =
  xdb_sys_latest_process_executions :: "LatestProcessExecutionRow list"
  xdb_sys_process_executions :: "ProcessExecutionRow list"
  xdb_sys_async_state_executions :: "AsyncStateExecutionRow list"
  xdb_sys_immediate_tasks :: "ImmediateTaskRowForInsert list"
  xdb_sys_timer_tasks :: "TimerTaskRowForInsert list"
  xdb_sys_local_queue :: "LocalQueueRow list"

datatype error =
    DupEntryError
  | ErrNoRows
  | conditionalUpdateFailure
  | StateNotPending
  | NonExistingStateExecution string int StateExecutionSequenceMaps error
  | NilPointerDereference

text \<open>
  Modelled from the spec: the error checkers of the session are declared outside the
  sources at hand; section 4.B names the kinds they recognise.
\<close>

definition IsDupEntryError :: "error \<Rightarrow> bool" where
  "IsDupEntryError err = (err = DupEntryError)"

definition IsConditionalUpdateFailure :: "error \<Rightarrow> bool" where
  "IsConditionalUpdateFailure err = (err = conditionalUpdateFailure)"

text \<open>
  Modelled from the spec: \<^verbatim>\<open>StartNewStateExecution\<close> assigns "a new
  \<^verbatim>\<open>StateIdSequence\<close> from a per-state-id counter" and makes the new state execution
  pending.
\<close>

definition StartNewStateExecution ::
  "StateExecutionSequenceMaps \<Rightarrow> string \<Rightarrow> int \<times> StateExecutionSequenceMaps" where
  "StartNewStateExecution s stateId =
     (let seqId = SequenceMap s stateId + 1
      in (seqId,
          s\<lparr>SequenceMap := (SequenceMap s)(stateId := seqId),
            PendingExecutionMap := insert (stateId, seqId) (PendingExecutionMap s)\<rparr>))"

text \<open>
  Modelled from the spec: \<^verbatim>\<open>CompleteNewStateExecution\<close> removes
  \<^verbatim>\<open>(StateId, StateIdSequence)\<close> from the pending-execution map and fails when it is
  absent.
\<close>

definition CompleteNewStateExecution ::
  "StateExecutionSequenceMaps \<Rightarrow> string \<Rightarrow> int \<Rightarrow> error + StateExecutionSequenceMaps" where
  "CompleteNewStateExecution s stateId stateSeq =
     (if (stateId, stateSeq) \<in> PendingExecutionMap s
      then Inr (s\<lparr>PendingExecutionMap := PendingExecutionMap s - {(stateId, stateSeq)}\<rparr>)
      else Inl StateNotPending)"


section \<open>The transactional store (extensions/postgres/transactional.go)\<close>

text \<open>
  Modelled from the spec: the schema is declared outside the sources at hand. Section 3
  gives the keys: a latest-process pointer per (namespace, ProcessId), a process execution
  per ProcessExecutionId, a state execution per (ProcessExecutionId, StateId,
  StateIdSequence). An insert that repeats a key fails with the duplicate-entry error.
\<close>

definition InsertLatestProcessExecution ::
  "database \<Rightarrow> LatestProcessExecutionRow \<Rightarrow> error + database" where
  "InsertLatestProcessExecution tx row =
     (if \<exists>r \<in> set (xdb_sys_latest_process_executions tx).
           lp_Namespace r = lp_Namespace row \<and> lp_ProcessId r = lp_ProcessId row
      then Inl DupEntryError
      else Inr (tx\<lparr>xdb_sys_latest_process_executions :=
                     xdb_sys_latest_process_executions tx @ [row]\<rparr>))"

text \<open>
  Modelled from the spec: the key of a process execution is its id (see above); the
  insert itself is the statement of \<^verbatim>\<open>transactional.go\<close>.
\<close>

definition InsertProcessExecution ::
  "database \<Rightarrow> ProcessExecutionRow \<Rightarrow> error + database" where
  "InsertProcessExecution tx row =
     (if \<exists>r \<in> set (xdb_sys_process_executions tx).
           pe_ProcessExecutionId r = pe_ProcessExecutionId row
      then Inl DupEntryError
      else Inr (tx\<lparr>xdb_sys_process_executions := xdb_sys_process_executions tx @ [row]\<rparr>))"

text \<open>
  \<^verbatim>\<open>UPDATE xdb_sys_process_executions SET status, history_event_id_sequence,
  state_execution_sequence_maps, wait_to_complete WHERE id = ...\<close>; the number of rows
  it changes is not looked at.
\<close>

definition UpdateProcessExecution ::
  "database \<Rightarrow> ProcessExecutionRowForUpdate \<Rightarrow> error + database" where
  "UpdateProcessExecution tx row =
     Inr (tx\<lparr>xdb_sys_process_executions :=
            map (\<lambda>r. if pe_ProcessExecutionId r = pu_ProcessExecutionId row
                      then r\<lparr>pe_Status := pu_Status row,
                             pe_HistoryEventIdSequence := pu_HistoryEventIdSequence row,
                             pe_StateExecutionSequenceMaps := pu_StateExecutionSequenceMaps row,
                             pe_WaitToComplete := pu_WaitToComplete row\<rparr>
                      else r)
                (xdb_sys_process_executions tx)\<rparr>)"

text \<open>
  \<^verbatim>\<open>SELECT id, status, history_event_id_sequence, state_execution_sequence_maps,
  wait_to_complete ... WHERE id = $1 FOR UPDATE\<close>, read with \<^verbatim>\<open>GetContext\<close>, which
  fails when no row matches. The columns that the query does not name keep Go's zero value.
\<close>

definition SelectProcessExecutionForUpdate ::
  "database \<Rightarrow> uuid \<Rightarrow> error + ProcessExecutionRowForUpdate" where
  "SelectProcessExecutionForUpdate tx processExecutionId =
     (case filter (\<lambda>r. pe_ProcessExecutionId r = processExecutionId)
                  (xdb_sys_process_executions tx) of
        [] \<Rightarrow> Inl ErrNoRows
      | r # _ \<Rightarrow>
          Inr \<lparr>pu_ProcessExecutionId = pe_ProcessExecutionId r,
               pu_Status = pe_Status r,
               pu_HistoryEventIdSequence = pe_HistoryEventIdSequence r,
               pu_StateExecutionSequenceMaps = pe_StateExecutionSequenceMaps r,
               pu_StateExecutionWaitingQueues = [],
               pu_WaitToComplete = pe_WaitToComplete r\<rparr>)"

text \<open>
  Modelled from the spec: the key of a state execution is (ProcessExecutionId, StateId,
  StateIdSequence) (see above); the insert itself is the statement of
  \<^verbatim>\<open>transactional.go\<close>.
\<close>

definition InsertAsyncStateExecution ::
  "database \<Rightarrow> AsyncStateExecutionRow \<Rightarrow> error + database" where
  "InsertAsyncStateExecution tx row =
     (if \<exists>r \<in> set (xdb_sys_async_state_executions tx).
           se_ProcessExecutionId r = se_ProcessExecutionId row \<and>
           se_StateId r = se_StateId row \<and>
           se_StateIdSequence r = se_StateIdSequence row
      then Inl DupEntryError
      else Inr (tx\<lparr>xdb_sys_async_state_executions :=
                     xdb_sys_async_state_executions tx @ [row]\<rparr>))"

text \<open>
  \<^verbatim>\<open>UPDATE xdb_sys_async_state_executions set version = :previous_version + 1,
  wait_until_status, execute_status, last_failure WHERE process_execution_id = ... AND
  state_id = ... AND state_id_sequence = ... AND version = :previous_version\<close>.
  The statement runs, then the number of rows it changed is compared with one.
\<close>

definition updateAsyncStateExecutionMatches ::
  "AsyncStateExecutionRowForUpdate \<Rightarrow> AsyncStateExecutionRow \<Rightarrow> bool" where
  "updateAsyncStateExecutionMatches row r =
     (se_ProcessExecutionId r = su_ProcessExecutionId row \<and>
      se_StateId r = su_StateId row \<and>
      se_StateIdSequence r = su_StateIdSequence row \<and>
      se_Version r = su_PreviousVersion row)"

definition updateAsyncStateExecutionQuery ::
  "AsyncStateExecutionRowForUpdate \<Rightarrow> AsyncStateExecutionRow list \<Rightarrow>
   AsyncStateExecutionRow list \<times> nat" where
  "updateAsyncStateExecutionQuery row rows =
     (map (\<lambda>r. if updateAsyncStateExecutionMatches row r
                then r\<lparr>se_Version := su_PreviousVersion row + 1,
                       se_WaitUntilStatus := su_WaitUntilStatus row,
                       se_ExecuteStatus := su_ExecuteStatus row,
                       se_LastFailure := su_LastFailure row\<rparr>
                else r) rows,
      length (filter (updateAsyncStateExecutionMatches row) rows))"

definition UpdateAsyncStateExecution ::
  "database \<Rightarrow> AsyncStateExecutionRowForUpdate \<Rightarrow> error + database" where
  "UpdateAsyncStateExecution tx row =
     (case updateAsyncStateExecutionQuery row (xdb_sys_async_state_executions tx) of
        (rows, effected) \<Rightarrow>
          if effected \<noteq> 1 then Inl conditionalUpdateFailure
          else Inr (tx\<lparr>xdb_sys_async_state_executions := rows\<rparr>))"


text \<open>
  Modelled from the spec: \<^verbatim>\<open>UpdateAsyncStateExecutionWithoutCommands\<close> is declared in
  \<^verbatim>\<open>sql_db_interfaces.go\<close> and implemented outside the sources at hand. Section 4.C
  calls it a conditional update that moves the state execution to the given status "at
  \<^verbatim>\<open>PreviousVersion+1\<close>", and section 4.B makes a versioned update that affects a number
  of rows other than one a conditional-update failure. It is written after its sibling
  above, with the \<^verbatim>\<open>Status\<close> of its row in place of the two phase statuses.
\<close>

definition updateWithoutCommandsMatches ::
  "AsyncStateExecutionRowForUpdateWithoutCommands \<Rightarrow> AsyncStateExecutionRow \<Rightarrow> bool" where
  "updateWithoutCommandsMatches row r =
     (se_ProcessExecutionId r = sw_ProcessExecutionId row \<and>
      se_StateId r = sw_StateId row \<and>
      se_StateIdSequence r = sw_StateIdSequence row \<and>
      se_Version r = sw_PreviousVersion row)"

definition UpdateAsyncStateExecutionWithoutCommands ::
  "database \<Rightarrow> AsyncStateExecutionRowForUpdateWithoutCommands \<Rightarrow> error + database" where
  "UpdateAsyncStateExecutionWithoutCommands tx row =
     (if length (filter (updateWithoutCommandsMatches row) (xdb_sys_async_state_executions tx))
           \<noteq> 1
      then Inl conditionalUpdateFailure
      else Inr (tx\<lparr>xdb_sys_async_state_executions :=
                     map (\<lambda>r. if updateWithoutCommandsMatches row r
                               then r\<lparr>se_Version := sw_PreviousVersion row + 1,
                                      se_Status := sw_Status row,
                                      se_LastFailure := sw_LastFailure row\<rparr>
                               else r)
                         (xdb_sys_async_state_executions tx)\<rparr>))"

text \<open>
  \<^verbatim>\<open>UPDATE xdb_sys_async_state_executions SET
  version = CASE WHEN wait_until_status=1 OR execute_status=1 THEN version+1 ELSE version END,
  wait_until_status = CASE WHEN wait_until_status=1 THEN 5 ELSE wait_until_status END,
  execute_status = CASE WHEN execute_status=1 THEN 5 ELSE execute_status END
  WHERE process_execution_id=$1\<close>.
  Every right-hand side reads the row as it was before the statement.
\<close>

definition abortRunning :: "AsyncStateExecutionRow \<Rightarrow> AsyncStateExecutionRow" where
  "abortRunning r =
     r\<lparr>se_Version :=
         (if se_WaitUntilStatus r = StateExecutionStatusRunning \<or>
             se_ExecuteStatus r = StateExecutionStatusRunning
          then se_Version r + 1 else se_Version r),
       se_WaitUntilStatus :=
         (if se_WaitUntilStatus r = StateExecutionStatusRunning
          then StateExecutionStatusAborted else se_WaitUntilStatus r),
       se_ExecuteStatus :=
         (if se_ExecuteStatus r = StateExecutionStatusRunning
          then StateExecutionStatusAborted else se_ExecuteStatus r)\<rparr>"

definition BatchUpdateAsyncStateExecutionsToAbortRunning ::
  "database \<Rightarrow> uuid \<Rightarrow> error + database" where
  "BatchUpdateAsyncStateExecutionsToAbortRunning tx processExecutionId =
     Inr (tx\<lparr>xdb_sys_async_state_executions :=
            map (\<lambda>r. if se_ProcessExecutionId r = processExecutionId then abortRunning r else r)
                (xdb_sys_async_state_executions tx)\<rparr>)"

definition InsertImmediateTask ::
  "database \<Rightarrow> ImmediateTaskRowForInsert \<Rightarrow> error + database" where
  "InsertImmediateTask tx row =
     Inr (tx\<lparr>xdb_sys_immediate_tasks := xdb_sys_immediate_tasks tx @ [row]\<rparr>)"

definition InsertLocalQueue :: "database \<Rightarrow> LocalQueueRow \<Rightarrow> error + database" where
  "InsertLocalQueue tx row =
     Inr (tx\<lparr>xdb_sys_local_queue := xdb_sys_local_queue tx @ [row]\<rparr>)"

section \<open>Inserting a state execution and its task (persistence/sql)\<close>

text \<open>
  \<^verbatim>\<open>stateIdSeq\<close> is an \<^verbatim>\<open>int\<close>; both rows store \<^verbatim>\<open>int32(stateIdSeq)\<close>.
\<close>

definition insertAsyncStateExecution ::
  "database \<Rightarrow> uuid \<Rightarrow> string \<Rightarrow> int \<Rightarrow> AsyncStateConfig option \<Rightarrow> string \<Rightarrow>
   AsyncStateExecutionInfoJson \<Rightarrow> error + database" where
  "insertAsyncStateExecution tx processExecutionId stateId stateIdSeq stateConfig stateInput
     stateInfo =
     (let stateRow =
            \<lparr>se_ProcessExecutionId = processExecutionId,
             se_StateId = stateId,
             se_StateIdSequence = int32 stateIdSeq,
             se_Version = 1,
             se_Status = StateExecutionStatusUndefined,
             se_WaitUntilStatus = StateExecutionStatusUndefined,
             se_ExecuteStatus = StateExecutionStatusUndefined,
             se_LastFailure = None,
             se_Input = stateInput,
             se_Info = stateInfo\<rparr>;
          stateRow' =
            (if GetSkipWaitUntil stateConfig
             then stateRow\<lparr>se_WaitUntilStatus := StateExecutionStatusSkipped,
                           se_ExecuteStatus := StateExecutionStatusRunning\<rparr>
             else stateRow\<lparr>se_WaitUntilStatus := StateExecutionStatusRunning,
                           se_ExecuteStatus := StateExecutionStatusUndefined\<rparr>)
      in InsertAsyncStateExecution tx stateRow')"

definition insertImmediateTask ::
  "database \<Rightarrow> uuid \<Rightarrow> string \<Rightarrow> int \<Rightarrow> AsyncStateConfig option \<Rightarrow> int \<Rightarrow>
   error + database" where
  "insertImmediateTask tx processExecutionId stateId stateIdSeq stateConfig shardId =
     (let immediateTaskRow =
            \<lparr>it_ShardId = shardId,
             it_TaskType = ImmediateTaskTypeWaitUntil,
             it_ProcessExecutionId = processExecutionId,
             it_StateId = stateId,
             it_StateIdSequence = int32 stateIdSeq,
             it_Info = None\<rparr>;
          immediateTaskRow' =
            (if GetSkipWaitUntil stateConfig
             then immediateTaskRow\<lparr>it_TaskType := ImmediateTaskTypeExecute\<rparr>
             else immediateTaskRow\<lparr>it_TaskType := ImmediateTaskTypeWaitUntil\<rparr>)
      in InsertImmediateTask tx immediateTaskRow')"


subsection \<open>publishToLocalQueue\<close>

record LocalQueueMessage =
  msg_QueueName :: string
  msg_DedupId :: "uuid option"
  msg_Payload :: string

text \<open>
  Modelled from the spec: \<^verbatim>\<open>persistence.DefaultShardId\<close> is declared outside the
  sources at hand. The spec speaks of "the default shard" and gives no number; nothing
  below depends on the number chosen here.
\<close>

definition DefaultShardId :: int where
  "DefaultShardId = 0"

fun publishToLocalQueue ::
  "database \<Rightarrow> uuid \<Rightarrow> LocalQueueMessage list \<Rightarrow> error + database" where
  "publishToLocalQueue tx processExecutionId [] = Inr tx"
| "publishToLocalQueue tx processExecutionId (message # messages) =
     (case InsertLocalQueue tx
             \<lparr>lq_ProcessExecutionId = processExecutionId,
              lq_QueueName = msg_QueueName message,
              lq_DedupId = msg_DedupId message,
              lq_Payload = msg_Payload message\<rparr> of
        Inl err \<Rightarrow> Inl err
      | Inr tx1 \<Rightarrow>
          (case InsertImmediateTask tx1
                  \<lparr>it_ShardId = DefaultShardId,
                   it_TaskType = ImmediateTaskTypeNewLocalQueueMessage,
                   it_ProcessExecutionId = processExecutionId,
                   it_StateId = [],
                   it_StateIdSequence = 0,
                   it_Info = Some \<lparr>lqi_QueueName = msg_QueueName message,
                                    lqi_DedupId = msg_DedupId message\<rparr>\<rparr> of
             Inl err \<Rightarrow> Inl err
           | Inr tx2 \<Rightarrow> publishToLocalQueue tx2 processExecutionId messages))"

section \<open>Recording a wait-until outcome (persistence/sql/wait_until.go)\<close>

record PrepareStateExecutionResponse =
  prep_WaitUntilStatus :: StateExecutionStatus
  prep_ExecuteStatus :: StateExecutionStatus
  prep_PreviousVersion :: int
  prep_Info :: AsyncStateExecutionInfoJson
  prep_Input :: string

record ProcessWaitUntilExecutionRequest =
  pwr_ProcessExecutionId :: uuid
  pwr_StateId :: string
  pwr_StateIdSequence :: int
  pwr_Prepare :: PrepareStateExecutionResponse
  pwr_CommandRequest :: CommandRequest
  pwr_PublishToLocalQueue :: "LocalQueueMessage list"
  pwr_TaskShardId :: int

record CompleteWaitUntilExecutionRequest =
  cwr_TaskShardId :: int
  cwr_ProcessExecutionId :: uuid
  cwr_StateId :: string
  cwr_StateIdSequence :: int
  cwr_PreviousVersion :: int

definition CompleteWaitUntilExecution ::
  "database \<Rightarrow> CompleteWaitUntilExecutionRequest \<Rightarrow> error + database" where
  "CompleteWaitUntilExecution tx request =
     (let stateRow =
            \<lparr>sw_ProcessExecutionId = cwr_ProcessExecutionId request,
             sw_StateId = cwr_StateId request,
             sw_StateIdSequence = cwr_StateIdSequence request,
             sw_Status = StateExecutionStatusExecuteRunning,
             sw_PreviousVersion = cwr_PreviousVersion request,
             sw_LastFailure = None\<rparr>
      in case UpdateAsyncStateExecutionWithoutCommands tx stateRow of
           Inl err \<Rightarrow> Inl err
         | Inr tx1 \<Rightarrow>
             InsertImmediateTask tx1
               \<lparr>it_ShardId = cwr_TaskShardId request,
                it_TaskType = ImmediateTaskTypeExecute,
                it_ProcessExecutionId = cwr_ProcessExecutionId request,
                it_StateId = cwr_StateId request,
                it_StateIdSequence = cwr_StateIdSequence request,
                it_Info = None\<rparr>)"


text \<open>
  \<^verbatim>\<open>updateWaitUntilExecution\<close> calls code that is outside the sources at hand: the
  waiting-queue blob of the process row with its methods, and
  \<^verbatim>\<open>doProcessLocalQueueMessageTx\<close>. Both are parameters here. \<open>addCommands\<close> takes the
  stored blob, the state execution, the local-queue commands and whether the waiting type
  is \<^verbatim>\<open>ANY_OF_COMPLETION\<close>, and gives the new blob and whether unconsumed messages
  remain; \<open>doProcessLocalQueueMessageTx\<close> takes the transaction, the shard and the process
  execution.
\<close>

definition updateWaitUntilExecution ::
  "(string \<Rightarrow> string \<times> int \<Rightarrow> string list \<Rightarrow> bool \<Rightarrow> error + string \<times> bool) \<Rightarrow>
   (database \<Rightarrow> int \<Rightarrow> uuid \<Rightarrow> error + database \<times> bool) \<Rightarrow>
   database \<Rightarrow> ProcessWaitUntilExecutionRequest \<Rightarrow> error + database \<times> bool" where
  "updateWaitUntilExecution addCommands doProcessLocalQueueMessageTx tx request =
     (case (if LocalQueueCommands (pwr_CommandRequest request) \<noteq> []
            then (case SelectProcessExecutionForUpdate tx (pwr_ProcessExecutionId request) of
                    Inl err \<Rightarrow> Inl err
                  | Inr prcRow \<Rightarrow>
                      (case addCommands (pu_StateExecutionWaitingQueues prcRow)
                              (pwr_StateId request, pwr_StateIdSequence request)
                              (LocalQueueCommands (pwr_CommandRequest request))
                              (WaitingType (pwr_CommandRequest request) = ANY_OF_COMPLETION) of
                         Inl err \<Rightarrow> Inl err
                       | Inr (waitingQueues, toConsume) \<Rightarrow>
                           (case UpdateProcessExecution tx
                                   (prcRow\<lparr>pu_StateExecutionWaitingQueues := waitingQueues\<rparr>) of
                              Inl err \<Rightarrow> Inl err
                            | Inr tx1 \<Rightarrow> Inr (tx1, toConsume))))
            else Inr (tx, False)) of
        Inl err \<Rightarrow> Inl err
      | Inr (tx1, toConsumeUnconsumedMessages) \<Rightarrow>
          (let stateRow =
                 \<lparr>su_ProcessExecutionId = pwr_ProcessExecutionId request,
                  su_StateId = pwr_StateId request,
                  su_StateIdSequence = pwr_StateIdSequence request,
                  su_Status = StateExecutionStatusWaitUntilWaiting,
                  su_WaitUntilStatus = StateExecutionStatusUndefined,
                  su_ExecuteStatus = StateExecutionStatusUndefined,
                  su_WaitUntilCommands = pwr_CommandRequest request,
                  su_WaitUntilCommandResults = \<lparr>TimerResults = [], LocalQueueResults = []\<rparr>,
                  su_LastFailure = None,
                  su_PreviousVersion = prep_PreviousVersion (pwr_Prepare request)\<rparr>
           in case UpdateAsyncStateExecution tx1 stateRow of
                Inl err \<Rightarrow> Inl err
              | Inr tx2 \<Rightarrow>
                  if toConsumeUnconsumedMessages
                  then doProcessLocalQueueMessageTx tx2 (pwr_TaskShardId request)
                         (pwr_ProcessExecutionId request)
                  else Inr (tx2, False)))"

definition doProcessWaitUntilExecutionTx ::
  "(string \<Rightarrow> string \<times> int \<Rightarrow> string list \<Rightarrow> bool \<Rightarrow> error + string \<times> bool) \<Rightarrow>
   (database \<Rightarrow> int \<Rightarrow> uuid \<Rightarrow> error + database \<times> bool) \<Rightarrow>
   database \<Rightarrow> ProcessWaitUntilExecutionRequest \<Rightarrow> error + database \<times> bool" where
  "doProcessWaitUntilExecutionTx addCommands doProcessLocalQueueMessageTx tx request =
     (case (if WaitingType (pwr_CommandRequest request) = EMPTY_COMMAND
            then (case CompleteWaitUntilExecution tx
                         \<lparr>cwr_TaskShardId = pwr_TaskShardId request,
                          cwr_ProcessExecutionId = pwr_ProcessExecutionId request,
                          cwr_StateId = pwr_StateId request,
                          cwr_StateIdSequence = pwr_StateIdSequence request,
                          cwr_PreviousVersion = prep_PreviousVersion (pwr_Prepare request)\<rparr> of
                    Inl err \<Rightarrow> Inl err
                  | Inr tx1 \<Rightarrow> Inr (tx1, True))
            else updateWaitUntilExecution addCommands doProcessLocalQueueMessageTx tx request) of
        Inl err \<Rightarrow> Inl err
      | Inr (tx1, hasNewImmediateTask) \<Rightarrow>
          (case publishToLocalQueue tx1 (pwr_ProcessExecutionId request)
                  (pwr_PublishToLocalQueue request) of
             Inl err \<Rightarrow> Inl err
           | Inr tx2 \<Rightarrow>
               Inr (tx2, if pwr_PublishToLocalQueue request \<noteq> [] then True
                         else hasNewImmediateTask)))"

text \<open>
  The transaction around it: the result is the database afterwards and what the caller
  gets. On an error the transaction is rolled back, otherwise it is committed.
\<close>

definition ProcessWaitUntilExecution ::
  "(string \<Rightarrow> string \<times> int \<Rightarrow> string list \<Rightarrow> bool \<Rightarrow> error + string \<times> bool) \<Rightarrow>
   (database \<Rightarrow> int \<Rightarrow> uuid \<Rightarrow> error + database \<times> bool) \<Rightarrow>
   database \<Rightarrow> ProcessWaitUntilExecutionRequest \<Rightarrow> database \<times> (error + bool)" where
  "ProcessWaitUntilExecution addCommands doProcessLocalQueueMessageTx db request =
     (case doProcessWaitUntilExecutionTx addCommands doProcessLocalQueueMessageTx db request of
        Inl err \<Rightarrow> (db, Inl err)
      | Inr (tx, resp) \<Rightarrow> (tx, Inr resp))"


section \<open>Recording an execute outcome (persistence/sql/complete_execute.go)\<close>

datatype ThreadCloseType =
    FORCE_COMPLETE_PROCESS
  | GRACEFUL_COMPLETE_PROCESS
  | FORCE_FAIL_PROCESS
  | DEAD_END

record ThreadCloseDecision =
  CloseType :: ThreadCloseType

record StateMovement =
  sm_StateId :: string
  sm_StateConfig :: "AsyncStateConfig option"
  sm_StateInput :: string

record StateDecision =
  sd_NextStates :: "StateMovement list"
  sd_ThreadCloseDecision :: "ThreadCloseDecision option"

record CompleteExecuteExecutionRequest =
  cer_ProcessExecutionId :: uuid
  cer_StateId :: string
  cer_StateIdSequence :: int
  cer_Prepare :: PrepareStateExecutionResponse
  cer_StateDecision :: StateDecision
  cer_PublishToLocalQueue :: "LocalQueueMessage list"
  cer_TaskShardId :: int

text \<open>Step 2 - 2, the loop over the next states of the decision.\<close>

fun startNextStates ::
  "database \<Rightarrow> StateExecutionSequenceMaps \<Rightarrow> uuid \<Rightarrow> AsyncStateExecutionInfoJson \<Rightarrow> int \<Rightarrow>
   StateMovement list \<Rightarrow> error + database \<times> StateExecutionSequenceMaps" where
  "startNextStates tx sequenceMaps prcExeId stateInfo shardId [] = Inr (tx, sequenceMaps)"
| "startNextStates tx sequenceMaps prcExeId stateInfo shardId (next # rest) =
     (case StartNewStateExecution sequenceMaps (sm_StateId next) of
        (stateIdSeq, sequenceMaps1) \<Rightarrow>
          (case insertAsyncStateExecution tx prcExeId (sm_StateId next) stateIdSeq
                  (sm_StateConfig next) (sm_StateInput next) stateInfo of
             Inl err \<Rightarrow> Inl err
           | Inr tx1 \<Rightarrow>
               (case insertImmediateTask tx1 prcExeId (sm_StateId next) stateIdSeq
                       (sm_StateConfig next) shardId of
                  Inl err \<Rightarrow> Inl err
                | Inr tx2 \<Rightarrow>
                    startNextStates tx2 sequenceMaps1 prcExeId stateInfo shardId rest)))"

text \<open>
  Step 2 - 3, from \<^verbatim>\<open>toGracefullyComplete := ...\<close> to the assignment of the status
  \<^verbatim>\<open>Completed\<close> under \<^verbatim>\<open>if toGracefullyComplete\<close>: the process row and the maps as
  they leave these lines, and \<^verbatim>\<open>toAbortRunningAsyncStates\<close>.
\<close>

definition closeThread ::
  "ProcessExecutionRowForUpdate \<Rightarrow> StateExecutionSequenceMaps \<Rightarrow> StateDecision \<Rightarrow>
   ProcessExecutionRowForUpdate \<times> StateExecutionSequenceMaps \<times> bool" where
  "closeThread prcRow sequenceMaps decision =
     (let toGracefullyComplete =
            (pu_WaitToComplete prcRow \<and> PendingExecutionMap sequenceMaps = {})
      in case (if \<not> toGracefullyComplete
               then (case sd_ThreadCloseDecision decision of
                       None \<Rightarrow> (prcRow, sequenceMaps, toGracefullyComplete, False)
                     | Some threadDecision \<Rightarrow>
                         (case CloseType threadDecision of
                            GRACEFUL_COMPLETE_PROCESS \<Rightarrow>
                              (prcRow\<lparr>pu_WaitToComplete := True\<rparr>, sequenceMaps,
                               PendingExecutionMap sequenceMaps = {}, False)
                          | FORCE_COMPLETE_PROCESS \<Rightarrow>
                              (prcRow\<lparr>pu_Status := ProcessExecutionStatusCompleted\<rparr>,
                               sequenceMaps\<lparr>PendingExecutionMap := {}\<rparr>,
                               toGracefullyComplete,
                               PendingExecutionMap sequenceMaps \<noteq> {})
                          | FORCE_FAIL_PROCESS \<Rightarrow>
                              (prcRow\<lparr>pu_Status := ProcessExecutionStatusFailed\<rparr>,
                               sequenceMaps\<lparr>PendingExecutionMap := {}\<rparr>,
                               toGracefullyComplete,
                               PendingExecutionMap sequenceMaps \<noteq> {})
                          | DEAD_END \<Rightarrow> (prcRow, sequenceMaps, toGracefullyComplete, False)))
               else (prcRow, sequenceMaps, toGracefullyComplete, False)) of
           (prcRow1, sequenceMaps1, toGracefullyComplete1, toAbortRunningAsyncStates) \<Rightarrow>
             ((if toGracefullyComplete1
               then prcRow1\<lparr>pu_Status := ProcessExecutionStatusCompleted\<rparr>
               else prcRow1),
              sequenceMaps1, toAbortRunningAsyncStates))"

text \<open>
  \<^verbatim>\<open>publishToLocalQueue\<close> returns an error only; the flag that
  \<^verbatim>\<open>complete_execute.go\<close> takes from it is the one \<^verbatim>\<open>wait_until.go\<close> computes by
  hand: whether there was a message to publish.
\<close>

definition doCompleteExecuteExecutionTx ::
  "database \<Rightarrow> CompleteExecuteExecutionRequest \<Rightarrow> error + database \<times> bool" where
  "doCompleteExecuteExecutionTx tx request =
     (case SelectProcessExecutionForUpdate tx (cer_ProcessExecutionId request) of
        Inl err \<Rightarrow> Inl err
      | Inr prcRow \<Rightarrow>
     (case UpdateAsyncStateExecutionWithoutCommands tx
             \<lparr>sw_ProcessExecutionId = cer_ProcessExecutionId request,
              sw_StateId = cer_StateId request,
              sw_StateIdSequence = cer_StateIdSequence request,
              sw_Status = StateExecutionStatusCompleted,
              sw_PreviousVersion = prep_PreviousVersion (cer_Prepare request),
              sw_LastFailure = None\<rparr> of
        Inl err \<Rightarrow> Inl err
      | Inr tx1 \<Rightarrow>
     (let sequenceMaps = pu_StateExecutionSequenceMaps prcRow
      in case CompleteNewStateExecution sequenceMaps (cer_StateId request)
                (cer_StateIdSequence request) of
        Inl err \<Rightarrow>
          Inl (NonExistingStateExecution (cer_StateId request) (cer_StateIdSequence request)
                 sequenceMaps err)
      | Inr sequenceMaps1 \<Rightarrow>
     (case (if sd_NextStates (cer_StateDecision request) \<noteq> []
            then startNextStates tx1 sequenceMaps1 (cer_ProcessExecutionId request)
                   (prep_Info (cer_Prepare request)) (cer_TaskShardId request)
                   (sd_NextStates (cer_StateDecision request))
            else Inr (tx1, sequenceMaps1)) of
        Inl err \<Rightarrow> Inl err
      | Inr (tx2, sequenceMaps2) \<Rightarrow>
     (case closeThread prcRow sequenceMaps2 (cer_StateDecision request) of
        (prcRow1, sequenceMaps3, toAbortRunningAsyncStates) \<Rightarrow>
     (case (if toAbortRunningAsyncStates
            then BatchUpdateAsyncStateExecutionsToAbortRunning tx2
                   (cer_ProcessExecutionId request)
            else Inr tx2) of
        Inl err \<Rightarrow> Inl err
      | Inr tx3 \<Rightarrow>
     (case UpdateProcessExecution tx3
             (prcRow1\<lparr>pu_StateExecutionSequenceMaps := sequenceMaps3\<rparr>) of
        Inl err \<Rightarrow> Inl err
      | Inr tx4 \<Rightarrow>
     (case publishToLocalQueue tx4 (cer_ProcessExecutionId request)
             (cer_PublishToLocalQueue request) of
        Inl err \<Rightarrow> Inl err
      | Inr tx5 \<Rightarrow>
          Inr (tx5, sd_NextStates (cer_StateDecision request) \<noteq> [] \<or>
                    cer_PublishToLocalQueue request \<noteq> [])))))))))"

definition CompleteExecuteExecution ::
  "database \<Rightarrow> CompleteExecuteExecutionRequest \<Rightarrow> database \<times> (error + bool)" where
  "CompleteExecuteExecution db request =
     (case doCompleteExecuteExecutionTx db request of
        Inl err \<Rightarrow> (db, Inl err)
      | Inr (tx, resp) \<Rightarrow> (tx, Inr resp))"


section \<open>Starting a process (engine/api_engine_sql_impl.go)\<close>

record ProcessStartConfig =
  psc_TimeoutSeconds :: "int option"

record ProcessExecutionStartRequest =
  req_Namespace :: string
  req_ProcessId :: string
  req_ProcessType :: string
  req_WorkerUrl :: string
  req_StartStateId :: "string option"
  req_StartStateInput :: string
  req_StartStateConfig :: "AsyncStateConfig option"
  req_ProcessStartConfig :: "ProcessStartConfig option"

text \<open>
  \<open>StartProcess db now prcExeId request\<close>: \<open>now\<close> is the reading of the clock and
  \<open>prcExeId\<close> the id that \<^verbatim>\<open>uuid.MustNewUUID\<close> mints. The result is the database
  afterwards and the triple \<open>(resp, alreadyStarted, retErr)\<close>; the response is the id of
  the process execution. The deferred function rolls the transaction back when
  \<^verbatim>\<open>alreadyStarted || retErr != nil\<close> and commits it otherwise. The pointer table and the
  task table go by their later names here (\<^verbatim>\<open>InsertCurrentProcessExecution\<close> and
  \<^verbatim>\<open>InsertWorkerTask\<close> in this revision).
\<close>

definition StartProcess ::
  "database \<Rightarrow> int \<Rightarrow> uuid \<Rightarrow> ProcessExecutionStartRequest \<Rightarrow>
   database \<times> uuid option \<times> bool \<times> error option" where
  "StartProcess db now prcExeId request =
     (case InsertLatestProcessExecution db
             \<lparr>lp_Namespace = req_Namespace request,
              lp_ProcessId = req_ProcessId request,
              lp_ProcessExecutionId = prcExeId\<rparr> of
        Inl retErr \<Rightarrow>
          if IsDupEntryError retErr then (db, None, True, None)
          else (db, None, False, Some retErr)
      | Inr tx1 \<Rightarrow>
     (let timeoutSeconds =
            (case req_ProcessStartConfig request of
               None \<Rightarrow> 0
             | Some sc \<Rightarrow> orDefault (psc_TimeoutSeconds sc) 0)
      in case (case req_StartStateId request of
                 None \<Rightarrow> Inr (tx1, (\<lambda>_. 0))
               | Some startStateId \<Rightarrow>
                   (let stateRow =
                          \<lparr>se_ProcessExecutionId = prcExeId,
                           se_StateId = startStateId,
                           se_StateIdSequence = 1,
                           se_Version = 1,
                           se_Status = StateExecutionStatusUndefined,
                           se_WaitUntilStatus =
                             (if GetSkipWaitUntil (req_StartStateConfig request)
                              then StateExecutionStatusSkipped
                              else StateExecutionStatusRunning),
                           se_ExecuteStatus =
                             (if GetSkipWaitUntil (req_StartStateConfig request)
                              then StateExecutionStatusRunning
                              else StateExecutionStatusUndefined),
                           se_LastFailure = None,
                           se_Input = req_StartStateInput request,
                           se_Info = \<lparr>info_Namespace = [], info_ProcessId = [],
                                      info_ProcessType = req_ProcessType request,
                                      info_WorkerURL = req_WorkerUrl request,
                                      info_StateConfig = None\<rparr>\<rparr>
                    in case InsertAsyncStateExecution tx1 stateRow of
                         Inl err \<Rightarrow> Inl err
                       | Inr tx2 \<Rightarrow>
                           (case InsertImmediateTask tx2
                                   \<lparr>it_ShardId = DefaultShardId,
                                    it_TaskType =
                                      (if GetSkipWaitUntil (req_StartStateConfig request)
                                       then ImmediateTaskTypeExecute
                                       else ImmediateTaskTypeWaitUntil),
                                    it_ProcessExecutionId = prcExeId,
                                    it_StateId = startStateId,
                                    it_StateIdSequence = 1,
                                    it_Info = None\<rparr> of
                              Inl err \<Rightarrow> Inl err
                            | Inr tx3 \<Rightarrow> Inr (tx3, (\<lambda>_. 0)(startStateId := 1))))) of
        Inl err \<Rightarrow> (db, None, False, Some err)
      | Inr (tx3, sequenceMap) \<Rightarrow>
          (case InsertProcessExecution tx3
                  \<lparr>pe_ProcessExecutionId = prcExeId,
                   pe_Namespace = req_Namespace request,
                   pe_ProcessId = req_ProcessId request,
                   pe_IsCurrent = True,
                   pe_Status = ProcessExecutionStatusRunning,
                   pe_HistoryEventIdSequence = 0,
                   pe_StateIdSequence = sequenceMap,
                   pe_StateExecutionSequenceMaps =
                     \<lparr>SequenceMap = (\<lambda>_. 0), PendingExecutionMap = {}\<rparr>,
                   pe_StateExecutionWaitingQueues = [],
                   pe_WaitToComplete = False,
                   pe_StartTime = now,
                   pe_TimeoutSeconds = timeoutSeconds,
                   pe_Info = \<lparr>pinfo_ProcessType = req_ProcessType request,
                              pinfo_WorkerURL = req_WorkerUrl request\<rparr>\<rparr> of
             Inl retErr \<Rightarrow> (db, Some prcExeId, False, Some retErr)
           | Inr tx4 \<Rightarrow> (tx4, Some prcExeId, False, None))))"

section \<open>The immediate-task processor (engine)\<close>

record WorkerTaskBackoffInfoJson =
  CompletedAttempts :: int
  FirstAttemptTimestampSeconds :: int

record ImmediateTask =
  task_ShardId :: int
  task_TaskType :: ImmediateTaskType
  task_ProcessExecutionId :: uuid
  task_StateId :: string
  task_StateIdSequence :: int
  task_WorkerTaskBackoffInfo :: "WorkerTaskBackoffInfoJson option"

definition createWorkerTaskBackoffInfo :: "int \<Rightarrow> WorkerTaskBackoffInfoJson" where
  "createWorkerTaskBackoffInfo now =
     \<lparr>CompletedAttempts = 0, FirstAttemptTimestampSeconds = now\<rparr>"

text \<open>
  The first lines of \<^verbatim>\<open>processWaitUntilTask\<close> and of \<^verbatim>\<open>processExecuteTask\<close>: the
  backoff info is created when the task has none, then the attempt is counted.
\<close>

definition countAttempt :: "int \<Rightarrow> ImmediateTask \<Rightarrow> ImmediateTask" where
  "countAttempt now task =
     (let info = (case task_WorkerTaskBackoffInfo task of
                    None \<Rightarrow> createWorkerTaskBackoffInfo now
                  | Some i \<Rightarrow> i)
      in task\<lparr>task_WorkerTaskBackoffInfo :=
                Some (info\<lparr>CompletedAttempts := int32 (CompletedAttempts info + 1)\<rparr>)\<rparr>)"

text \<open>
  \<^verbatim>\<open>checkRetry\<close> reads through two pointers, the backoff info of the task and the
  state config of the info; reading through a nil pointer panics.
\<close>

definition checkRetry ::
  "float64_machine \<Rightarrow> int \<Rightarrow> ImmediateTask \<Rightarrow> AsyncStateExecutionInfoJson \<Rightarrow>
   error + int \<times> bool" where
  "checkRetry m nowSeconds task info =
     (case task_WorkerTaskBackoffInfo task of
        None \<Rightarrow> Inl NilPointerDereference
      | Some backoffInfo \<Rightarrow>
          (case info_StateConfig info of
             None \<Rightarrow> Inl NilPointerDereference
           | Some stateConfig \<Rightarrow>
               Inr (GetNextBackoff m nowSeconds
                      (CompletedAttempts backoffInfo)
                      (FirstAttemptTimestampSeconds backoffInfo)
                      (WaitUntilApiRetryPolicy stateConfig))))"

text \<open>
  What the processor does once \<^verbatim>\<open>checkResponseAndError\<close> has reported a failed worker
  call: it schedules a retry after the interval, or gives up and returns the error. The
  branch is the same text in \<^verbatim>\<open>processWaitUntilTask\<close> and \<^verbatim>\<open>processExecuteTask\<close>.
  \<open>startSeconds\<close> and \<open>nowSeconds\<close> are the two readings of the clock.
\<close>

datatype RetryDecision = RetryTask int | ReturnError

definition onWorkerFailure ::
  "float64_machine \<Rightarrow> int \<Rightarrow> ImmediateTask \<Rightarrow> PrepareStateExecutionResponse \<Rightarrow>
   error + RetryDecision" where
  "onWorkerFailure m nowSeconds task prep =
     (case checkRetry m nowSeconds task (prep_Info prep) of
        Inl err \<Rightarrow> Inl err
      | Inr (nextIntervalSecs, shouldRetry) \<Rightarrow>
          Inr (if shouldRetry then RetryTask nextIntervalSecs else ReturnError))"

definition processWaitUntilTaskFailed ::
  "float64_machine \<Rightarrow> int \<Rightarrow> int \<Rightarrow> ImmediateTask \<Rightarrow> PrepareStateExecutionResponse \<Rightarrow>
   error + RetryDecision" where
  "processWaitUntilTaskFailed m startSeconds nowSeconds task prep =
     onWorkerFailure m nowSeconds (countAttempt startSeconds task) prep"

definition processExecuteTaskFailed ::
  "float64_machine \<Rightarrow> int \<Rightarrow> int \<Rightarrow> ImmediateTask \<Rightarrow> PrepareStateExecutionResponse \<Rightarrow>
   error + RetryDecision" where
  "processExecuteTaskFailed m startSeconds nowSeconds task prep =
     onWorkerFailure m nowSeconds (countAttempt startSeconds task) prep"

section \<open>The spec's formula and concrete inputs\<close>

text \<open>
  A machine for the examples: it answers NaN where the model leaves a float64 result
  open, and converts out of range to the smallest \<^verbatim>\<open>int32\<close>, as amd64 does. The
  examples are at inputs where nothing is left open, so their results are the same on
  every machine.
\<close>

definition nan_machine :: float64_machine where
  "nan_machine =
     \<lparr>pow_result = (\<lambda>x y. NonFinite), mul_result = (\<lambda>a b. NonFinite),
      int32_result = (\<lambda>f. - (2 ^ 31))\<rparr>"

text \<open>
  The interval in the words of the spec (section 4.H):
  \<^verbatim>\<open>min(MaximumIntervalSeconds, InitialIntervalSeconds * BackoffCoefficient^completedAttempts)\<close>,
  a rational number.
\<close>

definition spec_interval :: "RetryPolicyValue \<Rightarrow> int \<Rightarrow> rat" where
  "spec_interval policy completedAttempts =
     min (of_int (maximumIntervalSeconds policy))
         (of_int (initialIntervalSeconds policy) * backoffCoefficient policy powi completedAttempts)"

text \<open>Concrete retry policies for the examples below.\<close>

definition policy_three_halves :: RetryPolicy where
  "policy_three_halves =
     \<lparr>InitialIntervalSeconds = Some 1, BackoffCoefficient = Some (3 / 2),
      MaximumIntervalSeconds = Some 60, MaximumAttempts = None,
      MaximumAttemptsDurationSeconds = None\<rparr>"

definition policy_one_half :: RetryPolicy where
  "policy_one_half =
     \<lparr>InitialIntervalSeconds = Some 10, BackoffCoefficient = Some (1 / 2),
      MaximumIntervalSeconds = Some 60, MaximumAttempts = None,
      MaximumAttemptsDurationSeconds = None\<rparr>"

definition policy_three_attempts :: RetryPolicy where
  "policy_three_attempts =
     \<lparr>InitialIntervalSeconds = Some 1, BackoffCoefficient = Some 2,
      MaximumIntervalSeconds = Some 10, MaximumAttempts = Some 3,
      MaximumAttemptsDurationSeconds = Some 100\<rparr>"

text \<open>
  A concrete database for the examples below: the process \<open>''p1''\<close> of namespace
  \<open>''n''\<close> is running with two pending state executions, \<open>S1\<close> in its execute phase at
  version 1 and \<open>S2\<close> in its wait-until phase at version 7.
\<close>

definition example_info :: AsyncStateExecutionInfoJson where
  "example_info =
     \<lparr>info_Namespace = ''n'', info_ProcessId = ''p'', info_ProcessType = ''t'',
      info_WorkerURL = ''u'', info_StateConfig = None\<rparr>"

definition example_S1 :: AsyncStateExecutionRow where
  "example_S1 =
     \<lparr>se_ProcessExecutionId = ''p1'', se_StateId = ''S1'', se_StateIdSequence = 1,
      se_Version = 1, se_Status = StateExecutionStatusUndefined,
      se_WaitUntilStatus = StateExecutionStatusSkipped,
      se_ExecuteStatus = StateExecutionStatusRunning,
      se_LastFailure = None, se_Input = [], se_Info = example_info\<rparr>"

definition example_S2 :: AsyncStateExecutionRow where
  "example_S2 =
     \<lparr>se_ProcessExecutionId = ''p1'', se_StateId = ''S2'', se_StateIdSequence = 1,
      se_Version = 7, se_Status = StateExecutionStatusUndefined,
      se_WaitUntilStatus = StateExecutionStatusRunning,
      se_ExecuteStatus = StateExecutionStatusUndefined,
      se_LastFailure = None, se_Input = [], se_Info = example_info\<rparr>"

definition example_maps :: StateExecutionSequenceMaps where
  "example_maps =
     \<lparr>SequenceMap = (\<lambda>_. 0)(''S1'' := 1, ''S2'' := 1),
      PendingExecutionMap = {(''S1'', 1), (''S2'', 1)}\<rparr>"

definition example_process :: ProcessExecutionRow where
  "example_process =
     \<lparr>pe_ProcessExecutionId = ''p1'', pe_Namespace = ''n'', pe_ProcessId = ''p'',
      pe_IsCurrent = True, pe_Status = ProcessExecutionStatusRunning,
      pe_HistoryEventIdSequence = 0, pe_StateIdSequence = (\<lambda>_. 0),
      pe_StateExecutionSequenceMaps = example_maps,
      pe_StateExecutionWaitingQueues = [], pe_WaitToComplete = False,
      pe_StartTime = 0, pe_TimeoutSeconds = 0,
      pe_Info = \<lparr>pinfo_ProcessType = ''t'', pinfo_WorkerURL = ''u''\<rparr>\<rparr>"

definition example_db :: database where
  "example_db =
     \<lparr>xdb_sys_latest_process_executions =
        [\<lparr>lp_Namespace = ''n'', lp_ProcessId = ''p'', lp_ProcessExecutionId = ''p1''\<rparr>],
      xdb_sys_process_executions = [example_process],
      xdb_sys_async_state_executions = [example_S1, example_S2],
      xdb_sys_immediate_tasks = [],
      xdb_sys_timer_tasks = [],
      xdb_sys_local_queue = []\<rparr>"

definition example_prepare :: PrepareStateExecutionResponse where
  "example_prepare =
     \<lparr>prep_WaitUntilStatus = StateExecutionStatusSkipped,
      prep_ExecuteStatus = StateExecutionStatusRunning,
      prep_PreviousVersion = 1, prep_Info = example_info, prep_Input = []\<rparr>"

definition example_update :: AsyncStateExecutionRowForUpdate where
  "example_update =
     \<lparr>su_ProcessExecutionId = ''p1'', su_StateId = ''S1'', su_StateIdSequence = 1,
      su_Status = StateExecutionStatusCompleted,
      su_WaitUntilStatus = StateExecutionStatusSkipped,
      su_ExecuteStatus = StateExecutionStatusCompleted,
      su_WaitUntilCommands =
        \<lparr>WaitingType = EMPTY_COMMAND, TimerCommands = [], LocalQueueCommands = []\<rparr>,
      su_WaitUntilCommandResults = \<lparr>TimerResults = [], LocalQueueResults = []\<rparr>,
      su_LastFailure = None, su_PreviousVersion = 1\<rparr>"

definition example_update_without_commands ::
  AsyncStateExecutionRowForUpdateWithoutCommands where
  "example_update_without_commands =
     \<lparr>sw_ProcessExecutionId = ''p1'', sw_StateId = ''S1'', sw_StateIdSequence = 1,
      sw_Status = StateExecutionStatusCompleted, sw_PreviousVersion = 1,
      sw_LastFailure = None\<rparr>"

text \<open>
  Requests that complete \<open>S1\<close> of the example: with a decision to fail the process,
  and with no thread-close decision. In \<open>example_db_S1_done\<close> another processor has
  already completed \<open>S1\<close>: its row is at version 2 and it has left the pending map.
\<close>

definition example_request_force_fail :: CompleteExecuteExecutionRequest where
  "example_request_force_fail =
     \<lparr>cer_ProcessExecutionId = ''p1'', cer_StateId = ''S1'', cer_StateIdSequence = 1,
      cer_Prepare = example_prepare,
      cer_StateDecision =
        \<lparr>sd_NextStates = [],
         sd_ThreadCloseDecision = Some \<lparr>CloseType = FORCE_FAIL_PROCESS\<rparr>\<rparr>,
      cer_PublishToLocalQueue = [], cer_TaskShardId = 0\<rparr>"

definition example_request_plain :: CompleteExecuteExecutionRequest where
  "example_request_plain =
     \<lparr>cer_ProcessExecutionId = ''p1'', cer_StateId = ''S1'', cer_StateIdSequence = 1,
      cer_Prepare = example_prepare,
      cer_StateDecision = \<lparr>sd_NextStates = [], sd_ThreadCloseDecision = None\<rparr>,
      cer_PublishToLocalQueue = [], cer_TaskShardId = 0\<rparr>"

definition example_maps_S1_done :: StateExecutionSequenceMaps where
  "example_maps_S1_done =
     \<lparr>SequenceMap = (\<lambda>_. 0)(''S1'' := 1, ''S2'' := 1),
      PendingExecutionMap = {(''S2'', 1)}\<rparr>"

definition example_db_S1_done :: database where
  "example_db_S1_done =
     example_db
       \<lparr>xdb_sys_process_executions :=
          [example_process\<lparr>pe_StateExecutionSequenceMaps := example_maps_S1_done\<rparr>],
        xdb_sys_async_state_executions :=
          [example_S1\<lparr>se_Version := 2, se_Status := StateExecutionStatusCompleted\<rparr>,
           example_S2]\<rparr>"

definition example_locked_row :: ProcessExecutionRowForUpdate where
  "example_locked_row =
     \<lparr>pu_ProcessExecutionId = ''p1'', pu_Status = ProcessExecutionStatusRunning,
      pu_HistoryEventIdSequence = 0, pu_StateExecutionSequenceMaps = example_maps,
      pu_StateExecutionWaitingQueues = [], pu_WaitToComplete = False\<rparr>"

text \<open>A start request for the process id that the example database already holds.\<close>

definition example_start_request :: ProcessExecutionStartRequest where
  "example_start_request =
     \<lparr>req_Namespace = ''n'', req_ProcessId = ''p'', req_ProcessType = ''t'',
      req_WorkerUrl = ''u'', req_StartStateId = Some ''S1'', req_StartStateInput = [],
      req_StartStateConfig = None, req_ProcessStartConfig = None\<rparr>"

text \<open>A wait-until outcome with an empty command request, for \<open>S2\<close> of the example.\<close>

definition example_wait_until_request :: ProcessWaitUntilExecutionRequest where
  "example_wait_until_request =
     \<lparr>pwr_ProcessExecutionId = ''p1'', pwr_StateId = ''S2'', pwr_StateIdSequence = 1,
      pwr_Prepare = example_prepare\<lparr>prep_PreviousVersion := 7\<rparr>,
      pwr_CommandRequest =
        \<lparr>WaitingType = EMPTY_COMMAND, TimerCommands = [], LocalQueueCommands = []\<rparr>,
      pwr_PublishToLocalQueue =
        [\<lparr>msg_QueueName = ''q'', msg_DedupId = None, msg_Payload = ''x''\<rparr>],
      pwr_TaskShardId = 3\<rparr>"

text \<open>
  The collaborators of \<^verbatim>\<open>updateWaitUntilExecution\<close> that the examples pass; the branch
  that calls them is not taken there.
\<close>

definition no_commands ::
  "string \<Rightarrow> string \<times> int \<Rightarrow> string list \<Rightarrow> bool \<Rightarrow> error + string \<times> bool" where
  "no_commands blob stateExecutionId commands anyOf = Inr (blob, False)"

definition no_messages :: "database \<Rightarrow> int \<Rightarrow> uuid \<Rightarrow> error + database \<times> bool" where
  "no_messages tx shardId processExecutionId = Inr (tx, False)"

text \<open>A state config, and an execute task of the example before its first attempt.\<close>

definition example_config :: AsyncStateConfig where
  "example_config =
     \<lparr>SkipWaitUntil = Some True, WaitUntilApiTimeoutSeconds = None,
      ExecuteApiTimeoutSeconds = None,
      WaitUntilApiRetryPolicy = Some policy_three_attempts,
      ExecuteApiRetryPolicy = Some (policy_three_attempts\<lparr>MaximumAttempts := Some 1\<rparr>)\<rparr>"

definition example_task :: ImmediateTask where
  "example_task =
     \<lparr>task_ShardId = 0, task_TaskType = ImmediateTaskTypeExecute,
      task_ProcessExecutionId = ''p1'', task_StateId = ''S1'', task_StateIdSequence = 1,
      task_WorkerTaskBackoffInfo =
        Some \<lparr>CompletedAttempts = 0, FirstAttemptTimestampSeconds = 0\<rparr>\<rparr>"

definition example_S3 :: AsyncStateExecutionRow where
  "example_S3 =
     \<lparr>se_ProcessExecutionId = ''p1'', se_StateId = ''S3'', se_StateIdSequence = 1,
      se_Version = 1, se_Status = StateExecutionStatusUndefined,
      se_WaitUntilStatus = StateExecutionStatusSkipped,
      se_ExecuteStatus = StateExecutionStatusRunning,
      se_LastFailure = None, se_Input = [], se_Info = example_info\<rparr>"

definition example_S3_task :: ImmediateTaskRowForInsert where
  "example_S3_task =
     \<lparr>it_ShardId = 0, it_TaskType = ImmediateTaskTypeExecute,
      it_ProcessExecutionId = ''p1'', it_StateId = ''S3'', it_StateIdSequence = 1,
      it_Info = None\<rparr>"

section \<open>Unfolding the examples\<close>

lemmas example_db_defs =
  example_db_def example_S1_def example_S2_def example_process_def example_maps_def
  example_info_def example_prepare_def example_locked_row_def

lemmas store_defs =
  SelectProcessExecutionForUpdate_def UpdateAsyncStateExecutionWithoutCommands_def
  updateWithoutCommandsMatches_def CompleteNewStateExecution_def closeThread_def
  BatchUpdateAsyncStateExecutionsToAbortRunning_def abortRunning_def
  UpdateProcessExecution_def InsertImmediateTask_def InsertLocalQueue_def


section \<open>Backoff\<close>

lemma trunc_toward_zero_mono: "q \<le> r \<Longrightarrow> trunc_toward_zero q \<le> trunc_toward_zero r"
proof -
  assume qr: "q \<le> r"
  consider "0 \<le> q" | "q < 0" "0 \<le> r" | "q < 0" "r < 0" by linarith
  then show ?thesis
  proof cases
    case 1
    with qr show ?thesis by (simp add: trunc_toward_zero_def floor_mono)
  next
    case 2
    have "\<lceil>q\<rceil> \<le> 0" using 2 by (simp add: ceiling_le_zero)
    moreover have "0 \<le> \<lfloor>r\<rfloor>" using 2 by simp
    ultimately have "\<lceil>q\<rceil> \<le> \<lfloor>r\<rfloor>" by linarith
    then show ?thesis using 2 by (simp add: trunc_toward_zero_def)
  next
    case 3
    with qr show ?thesis by (simp add: trunc_toward_zero_def ceiling_mono)
  qed
qed

lemma trunc_toward_zero_nonneg: "0 \<le> q \<Longrightarrow> 0 \<le> trunc_toward_zero q"
  by (simp add: trunc_toward_zero_def)

lemma exact_float64_of_int: "\<bar>n\<bar> < 2 ^ 53 \<Longrightarrow> exact_float64 (of_int n)"
  by (simp add: exact_float64_def)

lemma exact_float64_three_halves: "exact_float64 (3 / 2)"
  by code_simp

lemma GetNextBackoff_retry:
  assumes "policy = setDefaultRetryPolicyValue policy0"
    and "\<not> (maximumAttempts policy > 0 \<and> n \<ge> maximumAttempts policy)"
    and "\<not> (maximumAttemptsDurationSeconds policy > 0 \<and>
            int64 (ts + maximumAttemptsDurationSeconds policy) < now)"
  shows "GetNextBackoff m now n ts policy0 =
     (min (maximumIntervalSeconds policy)
          (int32_of_float64 m (fmul m (Finite (of_int (initialIntervalSeconds policy)))
                 (math_Pow m (backoffCoefficient policy) n))), True)"
  using assms by (auto simp: GetNextBackoff_def Let_def min_def)

lemma GetNextBackoff_True_iff:
  assumes "policy = setDefaultRetryPolicyValue policy0"
  shows "snd (GetNextBackoff m now n ts policy0) \<longleftrightarrow>
     \<not> (maximumAttempts policy > 0 \<and> n \<ge> maximumAttempts policy) \<and>
     \<not> (maximumAttemptsDurationSeconds policy > 0 \<and>
            int64 (ts + maximumAttemptsDurationSeconds policy) < now)"
  using assms by (auto simp: GetNextBackoff_def Let_def)

lemma GetNextBackoff_exact:
  assumes p: "policy = setDefaultRetryPolicyValue policy0"
    and r: "snd (GetNextBackoff m now n ts policy0)"
    and pw: "math_Pow m (backoffCoefficient policy) n = Finite (backoffCoefficient policy powi n)"
    and ex: "exact_float64 (of_int (initialIntervalSeconds policy) * backoffCoefficient policy powi n)"
    and lo: "- (2 ^ 31) \<le> trunc_toward_zero
               (of_int (initialIntervalSeconds policy) * backoffCoefficient policy powi n)"
    and hi: "trunc_toward_zero
               (of_int (initialIntervalSeconds policy) * backoffCoefficient policy powi n) < 2 ^ 31"
  shows "GetNextBackoff m now n ts policy0 =
           (min (maximumIntervalSeconds policy)
                (trunc_toward_zero
                   (of_int (initialIntervalSeconds policy) * backoffCoefficient policy powi n)),
            True)"
proof -
  have "GetNextBackoff m now n ts policy0 =
     (min (maximumIntervalSeconds policy)
          (int32_of_float64 m (fmul m (Finite (of_int (initialIntervalSeconds policy)))
                 (math_Pow m (backoffCoefficient policy) n))), True)"
    using r GetNextBackoff_retry [OF p, of n ts now m] GetNextBackoff_True_iff [OF p, of m now n ts]
    by simp
  then show ?thesis using pw ex lo hi by (simp add: int32_of_float64_def)
qed

text \<open>
  Claim C3, as amended. With the policy completed by its defaults: no retry when
  \<^verbatim>\<open>MaximumAttempts\<close> is positive and the completed attempts have reached it; no retry
  when \<^verbatim>\<open>MaximumAttemptsDurationSeconds\<close> is positive and the first attempt plus that
  duration, added in \<^verbatim>\<open>int64\<close>, is before now; otherwise a retry. The interval of that
  retry is the smaller of \<^verbatim>\<open>MaximumIntervalSeconds\<close> and the integer part of the product
  of the initial interval with the coefficient to the power of the completed attempts,
  whenever the float64 computation of that product is exact (\<^verbatim>\<open>math.Pow\<close> returns the
  power itself and the product is a float64 value) and its integer part fits \<^verbatim>\<open>int32\<close>.
\<close>

theorem GetNextBackoff_cases:
  assumes p: "policy = setDefaultRetryPolicyValue policy0"
  shows "(maximumAttempts policy > 0 \<and> n \<ge> maximumAttempts policy \<longrightarrow>
            GetNextBackoff m now n ts policy0 = (0, False)) \<and>
         (maximumAttemptsDurationSeconds policy > 0 \<and>
            int64 (ts + maximumAttemptsDurationSeconds policy) < now \<longrightarrow>
            GetNextBackoff m now n ts policy0 = (0, False)) \<and>
         (\<not> (maximumAttempts policy > 0 \<and> n \<ge> maximumAttempts policy) \<and>
          \<not> (maximumAttemptsDurationSeconds policy > 0 \<and>
            int64 (ts + maximumAttemptsDurationSeconds policy) < now) \<longrightarrow>
            snd (GetNextBackoff m now n ts policy0)) \<and>
         (\<not> (maximumAttempts policy > 0 \<and> n \<ge> maximumAttempts policy) \<and>
          \<not> (maximumAttemptsDurationSeconds policy > 0 \<and>
            int64 (ts + maximumAttemptsDurationSeconds policy) < now) \<and>
          math_Pow m (backoffCoefficient policy) n = Finite (backoffCoefficient policy powi n) \<and>
          exact_float64
            (of_int (initialIntervalSeconds policy) * backoffCoefficient policy powi n) \<and>
          - (2 ^ 31) \<le> trunc_toward_zero
            (of_int (initialIntervalSeconds policy) * backoffCoefficient policy powi n) \<and>
          trunc_toward_zero
            (of_int (initialIntervalSeconds policy) * backoffCoefficient policy powi n) < 2 ^ 31 \<longrightarrow>
            GetNextBackoff m now n ts policy0 =
              (min (maximumIntervalSeconds policy)
                   (trunc_toward_zero
                      (of_int (initialIntervalSeconds policy) *
                       backoffCoefficient policy powi n)), True))"
proof (intro conjI impI)
  assume "maximumAttempts policy > 0 \<and> n \<ge> maximumAttempts policy"
  then show "GetNextBackoff m now n ts policy0 = (0, False)"
    using p by (simp add: GetNextBackoff_def Let_def)
next
  assume "maximumAttemptsDurationSeconds policy > 0 \<and>
            int64 (ts + maximumAttemptsDurationSeconds policy) < now"
  then show "GetNextBackoff m now n ts policy0 = (0, False)"
    using p by (simp add: GetNextBackoff_def Let_def)
next
  assume "\<not> (maximumAttempts policy > 0 \<and> n \<ge> maximumAttempts policy) \<and>
          \<not> (maximumAttemptsDurationSeconds policy > 0 \<and>
            int64 (ts + maximumAttemptsDurationSeconds policy) < now)"
  then show "snd (GetNextBackoff m now n ts policy0)"
    using GetNextBackoff_True_iff [OF p, of m now n ts] by simp
next
  assume a: "\<not> (maximumAttempts policy > 0 \<and> n \<ge> maximumAttempts policy) \<and>
          \<not> (maximumAttemptsDurationSeconds policy > 0 \<and>
            int64 (ts + maximumAttemptsDurationSeconds policy) < now) \<and>
          math_Pow m (backoffCoefficient policy) n = Finite (backoffCoefficient policy powi n) \<and>
          exact_float64
            (of_int (initialIntervalSeconds policy) * backoffCoefficient policy powi n) \<and>
          - (2 ^ 31) \<le> trunc_toward_zero
            (of_int (initialIntervalSeconds policy) * backoffCoefficient policy powi n) \<and>
          trunc_toward_zero
            (of_int (initialIntervalSeconds policy) * backoffCoefficient policy powi n) < 2 ^ 31"
  then have r: "snd (GetNextBackoff m now n ts policy0)"
    using GetNextBackoff_True_iff [OF p, of m now n ts] by simp
  show "GetNextBackoff m now n ts policy0 =
              (min (maximumIntervalSeconds policy)
                   (trunc_toward_zero
                      (of_int (initialIntervalSeconds policy) *
                       backoffCoefficient policy powi n)), True)"
    using a by (intro GetNextBackoff_exact [OF p r]) simp_all
qed

text \<open>
  Claim C9, as amended. Whenever a retry is allowed the interval is at most
  \<^verbatim>\<open>MaximumIntervalSeconds\<close>. For one policy with a coefficient of at least 1 and an
  initial interval that is not negative, and attempt counts \<open>a \<le> b\<close> that both allow a
  retry, the interval at \<open>a\<close> is at most the interval at \<open>b\<close>, whenever the float64
  computation of the product is exact at both counts (\<^verbatim>\<open>math.Pow\<close> returns the power
  itself and the product is a float64 value) and the integer part of the product at \<open>b\<close>
  fits \<^verbatim>\<open>int32\<close>.
\<close>

theorem GetNextBackoff_monotone:
  assumes p: "policy = setDefaultRetryPolicyValue policy0"
  shows "(GetNextBackoff m now2 b ts policy0 = (ib, True) \<longrightarrow>
            ib \<le> maximumIntervalSeconds policy) \<and>
         (GetNextBackoff m now1 a ts policy0 = (ia, True) \<and>
          GetNextBackoff m now2 b ts policy0 = (ib, True) \<and>
          a \<le> b \<and> 1 \<le> backoffCoefficient policy \<and> 0 \<le> initialIntervalSeconds policy \<and>
          math_Pow m (backoffCoefficient policy) a = Finite (backoffCoefficient policy powi a) \<and>
          math_Pow m (backoffCoefficient policy) b = Finite (backoffCoefficient policy powi b) \<and>
          exact_float64
            (of_int (initialIntervalSeconds policy) * backoffCoefficient policy powi a) \<and>
          exact_float64
            (of_int (initialIntervalSeconds policy) * backoffCoefficient policy powi b) \<and>
          trunc_toward_zero (of_int (initialIntervalSeconds policy) *
                             backoffCoefficient policy powi b) < 2 ^ 31 \<longrightarrow>
            ia \<le> ib)"
proof (intro conjI impI)
  assume rb: "GetNextBackoff m now2 b ts policy0 = (ib, True)"
  then have "snd (GetNextBackoff m now2 b ts policy0)" by simp
  then have "GetNextBackoff m now2 b ts policy0 =
     (min (maximumIntervalSeconds policy)
          (int32_of_float64 m (fmul m (Finite (of_int (initialIntervalSeconds policy)))
                 (math_Pow m (backoffCoefficient policy) b))), True)"
    using GetNextBackoff_retry [OF p, of b ts now2 m]
          GetNextBackoff_True_iff [OF p, of m now2 b ts]
    by simp
  with rb show "ib \<le> maximumIntervalSeconds policy" by auto
next
  let ?c = "backoffCoefficient policy" and ?i = "of_int (initialIntervalSeconds policy) :: rat"
  assume h: "GetNextBackoff m now1 a ts policy0 = (ia, True) \<and>
          GetNextBackoff m now2 b ts policy0 = (ib, True) \<and>
          a \<le> b \<and> 1 \<le> backoffCoefficient policy \<and> 0 \<le> initialIntervalSeconds policy \<and>
          math_Pow m (backoffCoefficient policy) a = Finite (backoffCoefficient policy powi a) \<and>
          math_Pow m (backoffCoefficient policy) b = Finite (backoffCoefficient policy powi b) \<and>
          exact_float64
            (of_int (initialIntervalSeconds policy) * backoffCoefficient policy powi a) \<and>
          exact_float64
            (of_int (initialIntervalSeconds policy) * backoffCoefficient policy powi b) \<and>
          trunc_toward_zero (of_int (initialIntervalSeconds policy) *
                             backoffCoefficient policy powi b) < 2 ^ 31"
  then have ra: "GetNextBackoff m now1 a ts policy0 = (ia, True)"
    and rb: "GetNextBackoff m now2 b ts policy0 = (ib, True)"
    and ab: "a \<le> b" and c1: "1 \<le> ?c" and i0: "0 \<le> initialIntervalSeconds policy"
    and pa: "math_Pow m ?c a = Finite (?c powi a)"
    and pb: "math_Pow m ?c b = Finite (?c powi b)"
    and ea: "exact_float64 (?i * ?c powi a)" and eb: "exact_float64 (?i * ?c powi b)"
    and rng: "trunc_toward_zero (?i * ?c powi b) < 2 ^ 31"
    by simp_all
  have sa: "snd (GetNextBackoff m now1 a ts policy0)" using ra by simp
  have sb: "snd (GetNextBackoff m now2 b ts policy0)" using rb by simp
  have pw: "?c powi a \<le> ?c powi b" using ab c1 by (rule power_int_increasing)
  have i0': "0 \<le> ?i" using i0 by simp
  have pa0: "0 \<le> ?c powi a" using c1 by (simp add: zero_le_power_int)
  have le: "?i * ?c powi a \<le> ?i * ?c powi b" using pw i0' by (rule mult_left_mono)
  have t: "trunc_toward_zero (?i * ?c powi a) \<le> trunc_toward_zero (?i * ?c powi b)"
    using le by (rule trunc_toward_zero_mono)
  have ta0: "0 \<le> trunc_toward_zero (?i * ?c powi a)"
    using i0' pa0 by (simp add: trunc_toward_zero_nonneg)
  have "GetNextBackoff m now1 a ts policy0 =
          (min (maximumIntervalSeconds policy) (trunc_toward_zero (?i * ?c powi a)), True)"
    using t ta0 rng by (intro GetNextBackoff_exact [OF p sa pa ea]) simp_all
  moreover have "GetNextBackoff m now2 b ts policy0 =
          (min (maximumIntervalSeconds policy) (trunc_toward_zero (?i * ?c powi b)), True)"
    using t ta0 rng by (intro GetNextBackoff_exact [OF p sb pb eb]) simp_all
  ultimately show "ia \<le> ib" using ra rb t by (simp add: min_def)
qed

lemmas backoff_defs =
  GetNextBackoff_def setDefaultRetryPolicyValue_def orDefault_def
  defaultWorkerTaskBackoffRetryPolicy_def int32_of_float64_def int64_def
  math_Pow_def trunc_toward_zero_def exact_float64_three_halves floor_eq_iff

theorem GetNextBackoff_cases_witness:
  "GetNextBackoff nan_machine 50 3 0 (Some policy_three_attempts) = (0, False) \<and>
   GetNextBackoff nan_machine 500 1 0 (Some policy_three_attempts) = (0, False) \<and>
   math_Pow nan_machine 2 1 = Finite (2 powi 1) \<and> exact_float64 (of_int 1 * 2 powi 1) \<and>
   GetNextBackoff nan_machine 50 1 0 (Some policy_three_attempts) = (2, True)"
  using GetNextBackoff_cases [of "setDefaultRetryPolicyValue (Some policy_three_attempts)"
          "Some policy_three_attempts" 3 nan_machine 50 0]
        GetNextBackoff_cases [of "setDefaultRetryPolicyValue (Some policy_three_attempts)"
          "Some policy_three_attempts" 1 nan_machine 500 0]
        GetNextBackoff_cases [of "setDefaultRetryPolicyValue (Some policy_three_attempts)"
          "Some policy_three_attempts" 1 nan_machine 50 0]
  by (simp add: setDefaultRetryPolicyValue_def policy_three_attempts_def orDefault_def
        defaultWorkerTaskBackoffRetryPolicy_def int64_def trunc_toward_zero_def
        math_Pow_def exact_float64_def)

text \<open>
  One completed attempt with an initial interval of 1 and a coefficient of 1.5, on any
  machine: the power is the coefficient, the product 1.5 is a float64 value, its integer
  part is 1.
\<close>

lemma first_retry_three_halves:
  "GetNextBackoff m 0 1 0 (Some policy_three_halves) = (1, True)"
  by (simp add: backoff_defs policy_three_halves_def)

text \<open>
  The interval is an integer, the formula of claim C3 is not: with an initial interval of
  1 and a coefficient of 1.5 the first retry waits 1 second, the formula gives 1.5.
\<close>

theorem GetNextBackoff_truncates_counterexample:
  "GetNextBackoff nan_machine 0 1 0 (Some policy_three_halves) = (1, True) \<and>
   spec_interval (setDefaultRetryPolicyValue (Some policy_three_halves)) 1 = 3 / 2 \<and>
   rat_of_int 1 \<noteq> 3 / 2"
proof -
  have "spec_interval (setDefaultRetryPolicyValue (Some policy_three_halves)) 1 = 3 / 2"
    by (simp add: setDefaultRetryPolicyValue_def policy_three_halves_def orDefault_def
          defaultWorkerTaskBackoffRetryPolicy_def spec_interval_def)
  then show ?thesis by (simp add: first_retry_three_halves)
qed

theorem GetNextBackoff_monotone_witness:
  "GetNextBackoff nan_machine 0 0 0 None = (1, True) \<and>
   GetNextBackoff nan_machine 7 1 0 None = (2, True) \<and>
   math_Pow nan_machine 2 0 = Finite (2 powi 0) \<and>
   math_Pow nan_machine 2 1 = Finite (2 powi 1) \<and>
   (1 :: int) \<le> 2 \<and> (2 :: int) \<le> 60"
  using GetNextBackoff_monotone [of "setDefaultRetryPolicyValue None" None nan_machine 7 1 0
          2 0 0 1]
  by (simp add: backoff_defs exact_float64_def)

text \<open>
  The first two intervals with an initial interval of 10 and a coefficient of 0.5, on any
  machine: the powers are 1 and 0.5, the products 10 and 5 are float64 values.
\<close>

lemma first_retries_one_half:
  "GetNextBackoff m 0 0 0 (Some policy_one_half) = (10, True) \<and>
   GetNextBackoff m 0 1 0 (Some policy_one_half) = (5, True)"
  by (simp add: backoff_defs policy_one_half_def exact_float64_def)

text \<open>
  With a coefficient below 1 the interval decreases, against claim C9: 10 seconds after
  no attempt, 5 seconds after one.
\<close>

theorem GetNextBackoff_decreasing_counterexample:
  "GetNextBackoff nan_machine 0 0 0 (Some policy_one_half) = (10, True) \<and>
   GetNextBackoff nan_machine 0 1 0 (Some policy_one_half) = (5, True) \<and>
   (0 :: int) \<le> 1 \<and> \<not> (10 :: int) \<le> 5"
  by (simp add: first_retries_one_half)

section \<open>What each operation of the store touches\<close>

lemma publishToLocalQueue_eq:
  "publishToLocalQueue tx processExecutionId messages =
     Inr (tx\<lparr>xdb_sys_immediate_tasks :=
              xdb_sys_immediate_tasks tx @
              map (\<lambda>message.
                     \<lparr>it_ShardId = DefaultShardId,
                      it_TaskType = ImmediateTaskTypeNewLocalQueueMessage,
                      it_ProcessExecutionId = processExecutionId,
                      it_StateId = [],
                      it_StateIdSequence = 0,
                      it_Info = Some \<lparr>lqi_QueueName = msg_QueueName message,
                                       lqi_DedupId = msg_DedupId message\<rparr>\<rparr>) messages,
            xdb_sys_local_queue :=
              xdb_sys_local_queue tx @
              map (\<lambda>message.
                     \<lparr>lq_ProcessExecutionId = processExecutionId,
                      lq_QueueName = msg_QueueName message,
                      lq_DedupId = msg_DedupId message,
                      lq_Payload = msg_Payload message\<rparr>) messages\<rparr>)"
  by (induction messages arbitrary: tx) (simp_all add: InsertLocalQueue_def InsertImmediateTask_def)

lemma UpdateAsyncStateExecutionWithoutCommands_Inr:
  assumes "UpdateAsyncStateExecutionWithoutCommands tx row = Inr tx1"
  shows "length (filter (updateWithoutCommandsMatches row) (xdb_sys_async_state_executions tx)) = 1"
    and "tx1 = tx\<lparr>xdb_sys_async_state_executions :=
                   map (\<lambda>r. if updateWithoutCommandsMatches row r
                             then r\<lparr>se_Version := sw_PreviousVersion row + 1,
                                    se_Status := sw_Status row,
                                    se_LastFailure := sw_LastFailure row\<rparr>
                             else r)
                       (xdb_sys_async_state_executions tx)\<rparr>"
  using assms by (auto simp: UpdateAsyncStateExecutionWithoutCommands_def split: if_splits)

lemma insertAsyncStateExecution_Inr:
  assumes "insertAsyncStateExecution tx peid sid sq cfg inp info = Inr tx1"
  shows "tx1 = tx\<lparr>xdb_sys_async_state_executions :=
                   xdb_sys_async_state_executions tx @
                   [\<lparr>se_ProcessExecutionId = peid, se_StateId = sid, se_StateIdSequence = int32 sq,
                     se_Version = 1, se_Status = StateExecutionStatusUndefined,
                     se_WaitUntilStatus =
                       (if GetSkipWaitUntil cfg then StateExecutionStatusSkipped
                        else StateExecutionStatusRunning),
                     se_ExecuteStatus =
                       (if GetSkipWaitUntil cfg then StateExecutionStatusRunning
                        else StateExecutionStatusUndefined),
                     se_LastFailure = None, se_Input = inp, se_Info = info\<rparr>]\<rparr>"
  using assms
  by (auto simp: insertAsyncStateExecution_def InsertAsyncStateExecution_def Let_def
           split: if_splits)

lemma insertImmediateTask_eq:
  "insertImmediateTask tx peid sid sq cfg shard =
     Inr (tx\<lparr>xdb_sys_immediate_tasks :=
              xdb_sys_immediate_tasks tx @
              [\<lparr>it_ShardId = shard,
                it_TaskType = (if GetSkipWaitUntil cfg then ImmediateTaskTypeExecute
                               else ImmediateTaskTypeWaitUntil),
                it_ProcessExecutionId = peid, it_StateId = sid, it_StateIdSequence = int32 sq,
                it_Info = None\<rparr>]\<rparr>)"
  by (simp add: insertImmediateTask_def InsertImmediateTask_def Let_def)

lemma startNextStates_Cons_Inr:
  assumes "startNextStates tx maps peid info shard (n # ns) = Inr (tx', maps')"
  obtains tx1 where
    "insertAsyncStateExecution tx peid (sm_StateId n) (SequenceMap maps (sm_StateId n) + 1)
       (sm_StateConfig n) (sm_StateInput n) info = Inr tx1"
    and "startNextStates
           (tx1\<lparr>xdb_sys_immediate_tasks :=
                  xdb_sys_immediate_tasks tx1 @
                  [\<lparr>it_ShardId = shard,
                    it_TaskType = (if GetSkipWaitUntil (sm_StateConfig n)
                                   then ImmediateTaskTypeExecute
                                   else ImmediateTaskTypeWaitUntil),
                    it_ProcessExecutionId = peid, it_StateId = sm_StateId n,
                    it_StateIdSequence = int32 (SequenceMap maps (sm_StateId n) + 1),
                    it_Info = None\<rparr>]\<rparr>)
           (snd (StartNewStateExecution maps (sm_StateId n))) peid info shard ns
         = Inr (tx', maps')"
proof (cases "insertAsyncStateExecution tx peid (sm_StateId n)
                (SequenceMap maps (sm_StateId n) + 1)
                (sm_StateConfig n) (sm_StateInput n) info")
  case (Inl e)
  with assms show ?thesis
    by (simp add: StartNewStateExecution_def Let_def)
next
  case (Inr tx1)
  with assms show ?thesis
    by (intro that [of tx1]) (simp_all add: StartNewStateExecution_def Let_def insertImmediateTask_eq)
qed

lemma startNextStates_frame:
  "startNextStates tx maps peid info shard nexts = Inr (tx', maps') \<Longrightarrow>
     xdb_sys_process_executions tx' = xdb_sys_process_executions tx \<and>
     xdb_sys_latest_process_executions tx' = xdb_sys_latest_process_executions tx \<and>
     xdb_sys_timer_tasks tx' = xdb_sys_timer_tasks tx \<and>
     xdb_sys_local_queue tx' = xdb_sys_local_queue tx \<and>
     PendingExecutionMap maps \<subseteq> PendingExecutionMap maps'"
proof (induction nexts arbitrary: tx maps)
  case Nil
  then show ?case by simp
next
  case (Cons n ns)
  from Cons.prems obtain tx1 where
      i: "insertAsyncStateExecution tx peid (sm_StateId n) (SequenceMap maps (sm_StateId n) + 1)
            (sm_StateConfig n) (sm_StateInput n) info = Inr tx1"
    and r: "startNextStates
           (tx1\<lparr>xdb_sys_immediate_tasks :=
                  xdb_sys_immediate_tasks tx1 @
                  [\<lparr>it_ShardId = shard,
                    it_TaskType = (if GetSkipWaitUntil (sm_StateConfig n)
                                   then ImmediateTaskTypeExecute
                                   else ImmediateTaskTypeWaitUntil),
                    it_ProcessExecutionId = peid, it_StateId = sm_StateId n,
                    it_StateIdSequence = int32 (SequenceMap maps (sm_StateId n) + 1),
                    it_Info = None\<rparr>]\<rparr>)
           (snd (StartNewStateExecution maps (sm_StateId n))) peid info shard ns
         = Inr (tx', maps')"
    by (rule startNextStates_Cons_Inr)
  have m1: "PendingExecutionMap maps \<subseteq>
            PendingExecutionMap (snd (StartNewStateExecution maps (sm_StateId n)))"
    by (auto simp: StartNewStateExecution_def Let_def)
  show ?case
    using Cons.IH [OF r] insertAsyncStateExecution_Inr [OF i] m1 by auto
qed

section \<open>The version gate of state-execution updates\<close>

lemma list_all2_map_same:
  "list_all2 P xs (map f xs) \<longleftrightarrow> (\<forall>x \<in> set xs. P x (f x))"
  by (simp add: list_all2_map2 list_all2_same)

text \<open>
  Claim C1, as amended. A single-row update of a state execution
  (\<^verbatim>\<open>UpdateAsyncStateExecution\<close>, and \<^verbatim>\<open>UpdateAsyncStateExecutionWithoutCommands\<close> as the
  spec describes it) succeeds only when exactly one row has the key and the supplied
  \<^verbatim>\<open>PreviousVersion\<close>; then that row, and no other, is changed and its version is the
  version before plus one. When the number of such rows is not one the update fails with
  the conditional-update failure. The batch-abort update takes no version: it raises by
  one the version of every row of the process that has a phase \<^verbatim>\<open>Running\<close>, whatever
  that version is, leaves every other row as it is, and never fails.
\<close>

theorem state_execution_updates_bump_version:
  "(UpdateAsyncStateExecution tx row = Inr tx' \<longrightarrow>
      length (filter (\<lambda>r. se_ProcessExecutionId r = su_ProcessExecutionId row \<and>
                          se_StateId r = su_StateId row \<and>
                          se_StateIdSequence r = su_StateIdSequence row \<and>
                          se_Version r = su_PreviousVersion row)
                (xdb_sys_async_state_executions tx)) = 1 \<and>
      list_all2 (\<lambda>r r'. if se_ProcessExecutionId r = su_ProcessExecutionId row \<and>
                            se_StateId r = su_StateId row \<and>
                            se_StateIdSequence r = su_StateIdSequence row \<and>
                            se_Version r = su_PreviousVersion row
                         then se_Version r' = se_Version r + 1
                         else r' = r)
        (xdb_sys_async_state_executions tx) (xdb_sys_async_state_executions tx')) \<and>
   (length (filter (\<lambda>r. se_ProcessExecutionId r = su_ProcessExecutionId row \<and>
                          se_StateId r = su_StateId row \<and>
                          se_StateIdSequence r = su_StateIdSequence row \<and>
                          se_Version r = su_PreviousVersion row)
                (xdb_sys_async_state_executions tx)) \<noteq> 1 \<longrightarrow>
      UpdateAsyncStateExecution tx row = Inl conditionalUpdateFailure) \<and>
   (UpdateAsyncStateExecutionWithoutCommands tx roww = Inr tx'' \<longrightarrow>
      length (filter (\<lambda>r. se_ProcessExecutionId r = sw_ProcessExecutionId roww \<and>
                          se_StateId r = sw_StateId roww \<and>
                          se_StateIdSequence r = sw_StateIdSequence roww \<and>
                          se_Version r = sw_PreviousVersion roww)
                (xdb_sys_async_state_executions tx)) = 1 \<and>
      list_all2 (\<lambda>r r'. if se_ProcessExecutionId r = sw_ProcessExecutionId roww \<and>
                            se_StateId r = sw_StateId roww \<and>
                            se_StateIdSequence r = sw_StateIdSequence roww \<and>
                            se_Version r = sw_PreviousVersion roww
                         then se_Version r' = se_Version r + 1
                         else r' = r)
        (xdb_sys_async_state_executions tx) (xdb_sys_async_state_executions tx'')) \<and>
   (length (filter (\<lambda>r. se_ProcessExecutionId r = sw_ProcessExecutionId roww \<and>
                          se_StateId r = sw_StateId roww \<and>
                          se_StateIdSequence r = sw_StateIdSequence roww \<and>
                          se_Version r = sw_PreviousVersion roww)
                (xdb_sys_async_state_executions tx)) \<noteq> 1 \<longrightarrow>
      UpdateAsyncStateExecutionWithoutCommands tx roww = Inl conditionalUpdateFailure) \<and>
   (\<exists>tx3. BatchUpdateAsyncStateExecutionsToAbortRunning tx processExecutionId = Inr tx3 \<and>
      list_all2 (\<lambda>r r'. if se_ProcessExecutionId r = processExecutionId \<and>
                            (se_WaitUntilStatus r = StateExecutionStatusRunning \<or>
                             se_ExecuteStatus r = StateExecutionStatusRunning)
                         then se_Version r' = se_Version r + 1
                         else r' = r)
        (xdb_sys_async_state_executions tx) (xdb_sys_async_state_executions tx3))"
proof (intro conjI impI)
  assume "UpdateAsyncStateExecution tx row = Inr tx'"
  then have n: "length (filter (updateAsyncStateExecutionMatches row)
                   (xdb_sys_async_state_executions tx)) = 1"
    and e: "xdb_sys_async_state_executions tx' =
              map (\<lambda>r. if updateAsyncStateExecutionMatches row r
                        then r\<lparr>se_Version := su_PreviousVersion row + 1,
                               se_WaitUntilStatus := su_WaitUntilStatus row,
                               se_ExecuteStatus := su_ExecuteStatus row,
                               se_LastFailure := su_LastFailure row\<rparr>
                        else r) (xdb_sys_async_state_executions tx)"
    by (auto simp: UpdateAsyncStateExecution_def updateAsyncStateExecutionQuery_def
             split: if_splits)
  from n show "length (filter (\<lambda>r. se_ProcessExecutionId r = su_ProcessExecutionId row \<and>
                          se_StateId r = su_StateId row \<and>
                          se_StateIdSequence r = su_StateIdSequence row \<and>
                          se_Version r = su_PreviousVersion row)
                (xdb_sys_async_state_executions tx)) = 1"
    by (simp add: updateAsyncStateExecutionMatches_def [abs_def])
  show "list_all2 (\<lambda>r r'. if se_ProcessExecutionId r = su_ProcessExecutionId row \<and>
                            se_StateId r = su_StateId row \<and>
                            se_StateIdSequence r = su_StateIdSequence row \<and>
                            se_Version r = su_PreviousVersion row
                         then se_Version r' = se_Version r + 1
                         else r' = r)
        (xdb_sys_async_state_executions tx) (xdb_sys_async_state_executions tx')"
    unfolding e list_all2_map_same
    by (simp add: updateAsyncStateExecutionMatches_def)
next
  assume "length (filter (\<lambda>r. se_ProcessExecutionId r = su_ProcessExecutionId row \<and>
                          se_StateId r = su_StateId row \<and>
                          se_StateIdSequence r = su_StateIdSequence row \<and>
                          se_Version r = su_PreviousVersion row)
                (xdb_sys_async_state_executions tx)) \<noteq> 1"
  then show "UpdateAsyncStateExecution tx row = Inl conditionalUpdateFailure"
    by (simp add: UpdateAsyncStateExecution_def updateAsyncStateExecutionQuery_def
          updateAsyncStateExecutionMatches_def [abs_def])
next
  assume a: "UpdateAsyncStateExecutionWithoutCommands tx roww = Inr tx''"
  from UpdateAsyncStateExecutionWithoutCommands_Inr(1) [OF a]
  show "length (filter (\<lambda>r. se_ProcessExecutionId r = sw_ProcessExecutionId roww \<and>
                          se_StateId r = sw_StateId roww \<and>
                          se_StateIdSequence r = sw_StateIdSequence roww \<and>
                          se_Version r = sw_PreviousVersion roww)
                (xdb_sys_async_state_executions tx)) = 1"
    by (simp add: updateWithoutCommandsMatches_def [abs_def])
  show "list_all2 (\<lambda>r r'. if se_ProcessExecutionId r = sw_ProcessExecutionId roww \<and>
                            se_StateId r = sw_StateId roww \<and>
                            se_StateIdSequence r = sw_StateIdSequence roww \<and>
                            se_Version r = sw_PreviousVersion roww
                         then se_Version r' = se_Version r + 1
                         else r' = r)
        (xdb_sys_async_state_executions tx) (xdb_sys_async_state_executions tx'')"
    unfolding UpdateAsyncStateExecutionWithoutCommands_Inr(2) [OF a]
    by (simp add: list_all2_map_same updateWithoutCommandsMatches_def)
next
  assume "length (filter (\<lambda>r. se_ProcessExecutionId r = sw_ProcessExecutionId roww \<and>
                          se_StateId r = sw_StateId roww \<and>
                          se_StateIdSequence r = sw_StateIdSequence roww \<and>
                          se_Version r = sw_PreviousVersion roww)
                (xdb_sys_async_state_executions tx)) \<noteq> 1"
  then show "UpdateAsyncStateExecutionWithoutCommands tx roww = Inl conditionalUpdateFailure"
    by (simp add: UpdateAsyncStateExecutionWithoutCommands_def
          updateWithoutCommandsMatches_def [abs_def])
next
  show "\<exists>tx3. BatchUpdateAsyncStateExecutionsToAbortRunning tx processExecutionId = Inr tx3 \<and>
      list_all2 (\<lambda>r r'. if se_ProcessExecutionId r = processExecutionId \<and>
                            (se_WaitUntilStatus r = StateExecutionStatusRunning \<or>
                             se_ExecuteStatus r = StateExecutionStatusRunning)
                         then se_Version r' = se_Version r + 1
                         else r' = r)
        (xdb_sys_async_state_executions tx) (xdb_sys_async_state_executions tx3)"
    by (auto simp: BatchUpdateAsyncStateExecutionsToAbortRunning_def list_all2_map_same
          abortRunning_def)
qed

theorem state_execution_updates_bump_version_witness:
  "UpdateAsyncStateExecution example_db example_update =
     Inr (example_db\<lparr>xdb_sys_async_state_executions :=
            [example_S1\<lparr>se_Version := 2, se_ExecuteStatus := StateExecutionStatusCompleted\<rparr>,
             example_S2]\<rparr>) \<and>
   UpdateAsyncStateExecution example_db (example_update\<lparr>su_PreviousVersion := 5\<rparr>) =
     Inl conditionalUpdateFailure \<and>
   UpdateAsyncStateExecutionWithoutCommands example_db example_update_without_commands =
     Inr (example_db\<lparr>xdb_sys_async_state_executions :=
            [example_S1\<lparr>se_Version := 2, se_Status := StateExecutionStatusCompleted\<rparr>,
             example_S2]\<rparr>) \<and>
   UpdateAsyncStateExecutionWithoutCommands example_db
       (example_update_without_commands\<lparr>sw_PreviousVersion := 5\<rparr>) =
     Inl conditionalUpdateFailure \<and>
   list_all2 (\<lambda>r r'. se_Version r' = se_Version r + 1)
     (xdb_sys_async_state_executions example_db)
     [example_S1\<lparr>se_Version := 2, se_ExecuteStatus := StateExecutionStatusAborted\<rparr>,
      example_S2\<lparr>se_Version := 8, se_WaitUntilStatus := StateExecutionStatusAborted\<rparr>]"
  using state_execution_updates_bump_version
          [of example_db example_update
              "example_db\<lparr>xdb_sys_async_state_executions :=
                 [example_S1\<lparr>se_Version := 2,
                              se_ExecuteStatus := StateExecutionStatusCompleted\<rparr>,
                  example_S2]\<rparr>"
              example_update_without_commands
              "example_db\<lparr>xdb_sys_async_state_executions :=
                 [example_S1\<lparr>se_Version := 2, se_Status := StateExecutionStatusCompleted\<rparr>,
                  example_S2]\<rparr>"
              "''p1''"]
        state_execution_updates_bump_version
          [of example_db "example_update\<lparr>su_PreviousVersion := 5\<rparr>" example_db
              "example_update_without_commands\<lparr>sw_PreviousVersion := 5\<rparr>" example_db
              "''p1''"]
  by (simp add: example_db_defs example_update_def example_update_without_commands_def
        UpdateAsyncStateExecution_def updateAsyncStateExecutionQuery_def
        updateAsyncStateExecutionMatches_def UpdateAsyncStateExecutionWithoutCommands_def
        updateWithoutCommandsMatches_def BatchUpdateAsyncStateExecutionsToAbortRunning_def
        abortRunning_def)

text \<open>
  Against claim C1 as stated: one batch-abort statement writes a row stored at version 1
  and a row stored at version 7. No version is supplied to it, and no single version
  could gate both writes.
\<close>

theorem batch_abort_has_no_version_gate_counterexample:
  "BatchUpdateAsyncStateExecutionsToAbortRunning example_db ''p1'' =
     Inr (example_db\<lparr>xdb_sys_async_state_executions :=
            [example_S1\<lparr>se_Version := 2, se_ExecuteStatus := StateExecutionStatusAborted\<rparr>,
             example_S2\<lparr>se_Version := 8, se_WaitUntilStatus := StateExecutionStatusAborted\<rparr>]\<rparr>) \<and>
   xdb_sys_async_state_executions example_db = [example_S1, example_S2] \<and>
   se_Version example_S1 = 1 \<and> se_Version example_S2 = 7"
  by (simp add: example_db_defs BatchUpdateAsyncStateExecutionsToAbortRunning_def
        abortRunning_def)

section \<open>The steps of a successful CompleteExecuteExecution\<close>

lemma SelectProcessExecutionForUpdate_Inr:
  assumes "SelectProcessExecutionForUpdate tx peid = Inr prcRow"
  shows "pu_ProcessExecutionId prcRow = peid"
  using assms
  by (auto simp: SelectProcessExecutionForUpdate_def filter_eq_Cons_iff split: list.splits)

lemma doCompleteExecuteExecutionTx_Inr:
  assumes "doCompleteExecuteExecutionTx tx request = Inr (tx', resp)"
  obtains prcRow tx1 maps1 tx2 maps2 prcRow1 maps3 toAbort where
    "SelectProcessExecutionForUpdate tx (cer_ProcessExecutionId request) = Inr prcRow"
    and "UpdateAsyncStateExecutionWithoutCommands tx
           \<lparr>sw_ProcessExecutionId = cer_ProcessExecutionId request,
            sw_StateId = cer_StateId request,
            sw_StateIdSequence = cer_StateIdSequence request,
            sw_Status = StateExecutionStatusCompleted,
            sw_PreviousVersion = prep_PreviousVersion (cer_Prepare request),
            sw_LastFailure = None\<rparr> = Inr tx1"
    and "CompleteNewStateExecution (pu_StateExecutionSequenceMaps prcRow)
           (cer_StateId request) (cer_StateIdSequence request) = Inr maps1"
    and "(if sd_NextStates (cer_StateDecision request) \<noteq> []
          then startNextStates tx1 maps1 (cer_ProcessExecutionId request)
                 (prep_Info (cer_Prepare request)) (cer_TaskShardId request)
                 (sd_NextStates (cer_StateDecision request))
          else Inr (tx1, maps1)) = Inr (tx2, maps2)"
    and "closeThread prcRow maps2 (cer_StateDecision request) = (prcRow1, maps3, toAbort)"
    and "publishToLocalQueue
           ((if toAbort
             then tx2\<lparr>xdb_sys_async_state_executions :=
                      map (\<lambda>r. if se_ProcessExecutionId r = cer_ProcessExecutionId request
                                then abortRunning r else r)
                          (xdb_sys_async_state_executions tx2)\<rparr>
             else tx2)
            \<lparr>xdb_sys_process_executions :=
               map (\<lambda>r. if pe_ProcessExecutionId r = pu_ProcessExecutionId prcRow1
                         then r\<lparr>pe_Status := pu_Status prcRow1,
                                pe_HistoryEventIdSequence := pu_HistoryEventIdSequence prcRow1,
                                pe_StateExecutionSequenceMaps := maps3,
                                pe_WaitToComplete := pu_WaitToComplete prcRow1\<rparr>
                         else r)
                   (xdb_sys_process_executions tx2)\<rparr>)
           (cer_ProcessExecutionId request) (cer_PublishToLocalQueue request) = Inr tx'"
    and "resp = (sd_NextStates (cer_StateDecision request) \<noteq> [] \<or>
                 cer_PublishToLocalQueue request \<noteq> [])"
proof -
  from assms obtain prcRow where
    1: "SelectProcessExecutionForUpdate tx (cer_ProcessExecutionId request) = Inr prcRow"
    by (cases "SelectProcessExecutionForUpdate tx (cer_ProcessExecutionId request)")
       (simp_all add: doCompleteExecuteExecutionTx_def)
  from assms 1 obtain tx1 where
    2: "UpdateAsyncStateExecutionWithoutCommands tx
           \<lparr>sw_ProcessExecutionId = cer_ProcessExecutionId request,
            sw_StateId = cer_StateId request,
            sw_StateIdSequence = cer_StateIdSequence request,
            sw_Status = StateExecutionStatusCompleted,
            sw_PreviousVersion = prep_PreviousVersion (cer_Prepare request),
            sw_LastFailure = None\<rparr> = Inr tx1"
    by (cases "UpdateAsyncStateExecutionWithoutCommands tx
           \<lparr>sw_ProcessExecutionId = cer_ProcessExecutionId request,
            sw_StateId = cer_StateId request,
            sw_StateIdSequence = cer_StateIdSequence request,
            sw_Status = StateExecutionStatusCompleted,
            sw_PreviousVersion = prep_PreviousVersion (cer_Prepare request),
            sw_LastFailure = None\<rparr>")
       (simp_all add: doCompleteExecuteExecutionTx_def)
  from assms 1 2 obtain maps1 where
    3: "CompleteNewStateExecution (pu_StateExecutionSequenceMaps prcRow)
           (cer_StateId request) (cer_StateIdSequence request) = Inr maps1"
    by (cases "CompleteNewStateExecution (pu_StateExecutionSequenceMaps prcRow)
           (cer_StateId request) (cer_StateIdSequence request)")
       (simp_all add: doCompleteExecuteExecutionTx_def Let_def)
  from assms 1 2 3 obtain tx2 maps2 where
    4: "(if sd_NextStates (cer_StateDecision request) \<noteq> []
          then startNextStates tx1 maps1 (cer_ProcessExecutionId request)
                 (prep_Info (cer_Prepare request)) (cer_TaskShardId request)
                 (sd_NextStates (cer_StateDecision request))
          else Inr (tx1, maps1)) = Inr (tx2, maps2)"
    by (cases "(if sd_NextStates (cer_StateDecision request) \<noteq> []
          then startNextStates tx1 maps1 (cer_ProcessExecutionId request)
                 (prep_Info (cer_Prepare request)) (cer_TaskShardId request)
                 (sd_NextStates (cer_StateDecision request))
          else Inr (tx1, maps1))")
       (auto simp add: doCompleteExecuteExecutionTx_def Let_def)
  obtain prcRow1 maps3 toAbort where
    5: "closeThread prcRow maps2 (cer_StateDecision request) = (prcRow1, maps3, toAbort)"
    by (cases "closeThread prcRow maps2 (cer_StateDecision request)")
  from assms 1 2 3 4 5 have
    6: "publishToLocalQueue
           ((if toAbort
             then tx2\<lparr>xdb_sys_async_state_executions :=
                      map (\<lambda>r. if se_ProcessExecutionId r = cer_ProcessExecutionId request
                                then abortRunning r else r)
                          (xdb_sys_async_state_executions tx2)\<rparr>
             else tx2)
            \<lparr>xdb_sys_process_executions :=
               map (\<lambda>r. if pe_ProcessExecutionId r = pu_ProcessExecutionId prcRow1
                         then r\<lparr>pe_Status := pu_Status prcRow1,
                                pe_HistoryEventIdSequence := pu_HistoryEventIdSequence prcRow1,
                                pe_StateExecutionSequenceMaps := maps3,
                                pe_WaitToComplete := pu_WaitToComplete prcRow1\<rparr>
                         else r)
                   (xdb_sys_process_executions tx2)\<rparr>)
           (cer_ProcessExecutionId request) (cer_PublishToLocalQueue request) = Inr tx'"
    and 7: "resp = (sd_NextStates (cer_StateDecision request) \<noteq> [] \<or>
                 cer_PublishToLocalQueue request \<noteq> [])"
    by (simp_all add: doCompleteExecuteExecutionTx_def Let_def
          BatchUpdateAsyncStateExecutionsToAbortRunning_def UpdateProcessExecution_def
          publishToLocalQueue_eq split: if_splits cong: if_cong)
  from 1 2 3 4 5 6 7 show ?thesis by (rule that)
qed

lemma closeThread_id:
  "closeThread prcRow maps dec = (prcRow1, maps3, toAbort) \<Longrightarrow>
     pu_ProcessExecutionId prcRow1 = pu_ProcessExecutionId prcRow"
  by (auto simp: closeThread_def Let_def
           split: if_splits option.splits ThreadCloseType.splits)

lemma closeThread_terminal:
  "closeThread prcRow maps dec = (prcRow1, maps3, toAbort) \<Longrightarrow>
     pu_Status prcRow = ProcessExecutionStatusRunning \<Longrightarrow>
     pu_Status prcRow1 \<noteq> ProcessExecutionStatusRunning \<Longrightarrow>
     PendingExecutionMap maps3 = {}"
  by (auto simp: closeThread_def Let_def
           split: if_splits option.splits ThreadCloseType.splits)

lemma closeThread_force:
  assumes "sd_ThreadCloseDecision dec = Some d"
    and "CloseType d = FORCE_COMPLETE_PROCESS \<or> CloseType d = FORCE_FAIL_PROCESS"
    and "PendingExecutionMap maps \<noteq> {}"
  shows "closeThread prcRow maps dec =
           (prcRow\<lparr>pu_Status := (if CloseType d = FORCE_COMPLETE_PROCESS
                                   then ProcessExecutionStatusCompleted
                                   else ProcessExecutionStatusFailed)\<rparr>,
            maps\<lparr>PendingExecutionMap := {}\<rparr>, True)"
  using assms by (auto simp: closeThread_def Let_def)

lemma doCompleteExecuteExecutionTx_process_rows:
  assumes ok: "doCompleteExecuteExecutionTx tx request = Inr (tx', resp)"
  obtains prcRow maps1 tx2 maps2 prcRow1 maps3 toAbort where
    "SelectProcessExecutionForUpdate tx (cer_ProcessExecutionId request) = Inr prcRow"
    and "CompleteNewStateExecution (pu_StateExecutionSequenceMaps prcRow)
           (cer_StateId request) (cer_StateIdSequence request) = Inr maps1"
    and "PendingExecutionMap maps1 \<subseteq> PendingExecutionMap maps2"
    and "closeThread prcRow maps2 (cer_StateDecision request) = (prcRow1, maps3, toAbort)"
    and "xdb_sys_process_executions tx' =
           map (\<lambda>r. if pe_ProcessExecutionId r = cer_ProcessExecutionId request
                     then r\<lparr>pe_Status := pu_Status prcRow1,
                            pe_HistoryEventIdSequence := pu_HistoryEventIdSequence prcRow1,
                            pe_StateExecutionSequenceMaps := maps3,
                            pe_WaitToComplete := pu_WaitToComplete prcRow1\<rparr>
                     else r)
               (xdb_sys_process_executions tx)"
proof -
  from ok obtain prcRow tx1 maps1 tx2 maps2 prcRow1 maps3 toAbort where
    1: "SelectProcessExecutionForUpdate tx (cer_ProcessExecutionId request) = Inr prcRow"
    and 2: "UpdateAsyncStateExecutionWithoutCommands tx
           \<lparr>sw_ProcessExecutionId = cer_ProcessExecutionId request,
            sw_StateId = cer_StateId request,
            sw_StateIdSequence = cer_StateIdSequence request,
            sw_Status = StateExecutionStatusCompleted,
            sw_PreviousVersion = prep_PreviousVersion (cer_Prepare request),
            sw_LastFailure = None\<rparr> = Inr tx1"
    and 3: "CompleteNewStateExecution (pu_StateExecutionSequenceMaps prcRow)
           (cer_StateId request) (cer_StateIdSequence request) = Inr maps1"
    and 4: "(if sd_NextStates (cer_StateDecision request) \<noteq> []
          then startNextStates tx1 maps1 (cer_ProcessExecutionId request)
                 (prep_Info (cer_Prepare request)) (cer_TaskShardId request)
                 (sd_NextStates (cer_StateDecision request))
          else Inr (tx1, maps1)) = Inr (tx2, maps2)"
    and 5: "closeThread prcRow maps2 (cer_StateDecision request) = (prcRow1, maps3, toAbort)"
    and 6: "publishToLocalQueue
           ((if toAbort
             then tx2\<lparr>xdb_sys_async_state_executions :=
                      map (\<lambda>r. if se_ProcessExecutionId r = cer_ProcessExecutionId request
                                then abortRunning r else r)
                          (xdb_sys_async_state_executions tx2)\<rparr>
             else tx2)
            \<lparr>xdb_sys_process_executions :=
               map (\<lambda>r. if pe_ProcessExecutionId r = pu_ProcessExecutionId prcRow1
                         then r\<lparr>pe_Status := pu_Status prcRow1,
                                pe_HistoryEventIdSequence := pu_HistoryEventIdSequence prcRow1,
                                pe_StateExecutionSequenceMaps := maps3,
                                pe_WaitToComplete := pu_WaitToComplete prcRow1\<rparr>
                         else r)
                   (xdb_sys_process_executions tx2)\<rparr>)
           (cer_ProcessExecutionId request) (cer_PublishToLocalQueue request) = Inr tx'"
    by (rule doCompleteExecuteExecutionTx_Inr)
  have p1: "xdb_sys_process_executions tx1 = xdb_sys_process_executions tx"
    using UpdateAsyncStateExecutionWithoutCommands_Inr(2) [OF 2] by simp
  have p2: "xdb_sys_process_executions tx2 = xdb_sys_process_executions tx1 \<and>
            PendingExecutionMap maps1 \<subseteq> PendingExecutionMap maps2"
  proof (cases "sd_NextStates (cer_StateDecision request) \<noteq> []")
    case True
    with 4 show ?thesis using startNextStates_frame by simp
  next
    case False
    with 4 show ?thesis by simp
  qed
  have id: "pu_ProcessExecutionId prcRow1 = cer_ProcessExecutionId request"
    using closeThread_id [OF 5] SelectProcessExecutionForUpdate_Inr [OF 1] by simp
  have "xdb_sys_process_executions tx' =
           map (\<lambda>r. if pe_ProcessExecutionId r = cer_ProcessExecutionId request
                     then r\<lparr>pe_Status := pu_Status prcRow1,
                            pe_HistoryEventIdSequence := pu_HistoryEventIdSequence prcRow1,
                            pe_StateExecutionSequenceMaps := maps3,
                            pe_WaitToComplete := pu_WaitToComplete prcRow1\<rparr>
                     else r)
               (xdb_sys_process_executions tx)"
    using 6 p1 p2 id by (auto simp: publishToLocalQueue_eq)
  with 1 3 p2 5 show ?thesis by (intro that) auto
qed

section \<open>A terminal process has no pending state execution\<close>

text \<open>
  Claim C2. Let the process row that \<^verbatim>\<open>CompleteExecuteExecution\<close> locks satisfy the
  invariant: its pending-execution map is empty unless its status is \<^verbatim>\<open>Running\<close>. When
  the transaction succeeds, the row was running, and every row of the process that the
  transaction writes satisfies the invariant again: a status other than \<^verbatim>\<open>Running\<close> comes
  with an empty pending-execution map, so the process leaves \<^verbatim>\<open>Running\<close> only with an
  empty map.
\<close>

theorem terminal_process_has_empty_pending_map:
  assumes ok: "doCompleteExecuteExecutionTx tx request = Inr (tx', resp)"
    and sel: "SelectProcessExecutionForUpdate tx (cer_ProcessExecutionId request) = Inr prcRow"
    and inv: "pu_Status prcRow \<noteq> ProcessExecutionStatusRunning \<longrightarrow>
              PendingExecutionMap (pu_StateExecutionSequenceMaps prcRow) = {}"
  shows "pu_Status prcRow = ProcessExecutionStatusRunning \<and>
         (\<forall>r \<in> set (xdb_sys_process_executions tx').
            pe_ProcessExecutionId r = cer_ProcessExecutionId request \<longrightarrow>
            pe_Status r \<noteq> ProcessExecutionStatusRunning \<longrightarrow>
            PendingExecutionMap (pe_StateExecutionSequenceMaps r) = {})"
proof -
  from ok obtain prcRow' maps1 tx2 maps2 prcRow1 maps3 toAbort where
    1: "SelectProcessExecutionForUpdate tx (cer_ProcessExecutionId request) = Inr prcRow'"
    and 3: "CompleteNewStateExecution (pu_StateExecutionSequenceMaps prcRow')
           (cer_StateId request) (cer_StateIdSequence request) = Inr maps1"
    and 5: "closeThread prcRow' maps2 (cer_StateDecision request) = (prcRow1, maps3, toAbort)"
    and 6: "xdb_sys_process_executions tx' =
           map (\<lambda>r. if pe_ProcessExecutionId r = cer_ProcessExecutionId request
                     then r\<lparr>pe_Status := pu_Status prcRow1,
                            pe_HistoryEventIdSequence := pu_HistoryEventIdSequence prcRow1,
                            pe_StateExecutionSequenceMaps := maps3,
                            pe_WaitToComplete := pu_WaitToComplete prcRow1\<rparr>
                     else r)
               (xdb_sys_process_executions tx)"
    by (rule doCompleteExecuteExecutionTx_process_rows)
  from 1 sel have eq: "prcRow' = prcRow" by simp
  from 3 eq have "(cer_StateId request, cer_StateIdSequence request) \<in>
                  PendingExecutionMap (pu_StateExecutionSequenceMaps prcRow)"
    by (auto simp: CompleteNewStateExecution_def split: if_splits)
  with inv have run: "pu_Status prcRow = ProcessExecutionStatusRunning" by auto
  have "pu_Status prcRow1 \<noteq> ProcessExecutionStatusRunning \<Longrightarrow> PendingExecutionMap maps3 = {}"
    using closeThread_terminal [OF 5] run eq by simp
  then show ?thesis using run 6 by auto
qed

theorem terminal_process_has_empty_pending_map_witness:
  "SelectProcessExecutionForUpdate example_db ''p1'' = Inr example_locked_row \<and>
   pu_Status example_locked_row = ProcessExecutionStatusRunning \<and>
   map (\<lambda>r. (pe_Status r, PendingExecutionMap (pe_StateExecutionSequenceMaps r)))
     (xdb_sys_process_executions
        (fst (CompleteExecuteExecution example_db example_request_force_fail))) =
     [(ProcessExecutionStatusFailed, {})]"
  using terminal_process_has_empty_pending_map
          [of example_db example_request_force_fail
              "fst (CompleteExecuteExecution example_db example_request_force_fail)" False
              example_locked_row]
  by (simp add: CompleteExecuteExecution_def doCompleteExecuteExecutionTx_def store_defs
        example_db_defs example_request_force_fail_def Let_def)

section \<open>Completing a state execution that is not pending\<close>

text \<open>
  Claim C5, as amended. When the process row exists, the conditional update of the state
  execution succeeds (exactly one row has the key and the supplied version), and the
  (state id, sequence) being completed is absent from the pending-execution map, then
  \<^verbatim>\<open>CompleteExecuteExecution\<close> returns the data-corruption error, which carries the
  maps as they were read, and the transaction is rolled back: the database afterwards is
  the database before, in every table.
\<close>

theorem completing_absent_state_is_data_corruption:
  assumes sel: "SelectProcessExecutionForUpdate db (cer_ProcessExecutionId request) = Inr prcRow"
    and upd: "length (filter (\<lambda>r. se_ProcessExecutionId r = cer_ProcessExecutionId request \<and>
                                   se_StateId r = cer_StateId request \<and>
                                   se_StateIdSequence r = cer_StateIdSequence request \<and>
                                   se_Version r = prep_PreviousVersion (cer_Prepare request))
                     (xdb_sys_async_state_executions db)) = 1"
    and absent: "(cer_StateId request, cer_StateIdSequence request) \<notin>
                 PendingExecutionMap (pu_StateExecutionSequenceMaps prcRow)"
  shows "CompleteExecuteExecution db request =
           (db, Inl (NonExistingStateExecution (cer_StateId request)
                       (cer_StateIdSequence request)
                       (pu_StateExecutionSequenceMaps prcRow) StateNotPending))"
proof -
  have "\<exists>tx1. UpdateAsyncStateExecutionWithoutCommands db
           \<lparr>sw_ProcessExecutionId = cer_ProcessExecutionId request,
            sw_StateId = cer_StateId request,
            sw_StateIdSequence = cer_StateIdSequence request,
            sw_Status = StateExecutionStatusCompleted,
            sw_PreviousVersion = prep_PreviousVersion (cer_Prepare request),
            sw_LastFailure = None\<rparr> = Inr tx1"
    using upd
    by (simp add: UpdateAsyncStateExecutionWithoutCommands_def
          updateWithoutCommandsMatches_def [abs_def])
  then obtain tx1 where u: "UpdateAsyncStateExecutionWithoutCommands db
           \<lparr>sw_ProcessExecutionId = cer_ProcessExecutionId request,
            sw_StateId = cer_StateId request,
            sw_StateIdSequence = cer_StateIdSequence request,
            sw_Status = StateExecutionStatusCompleted,
            sw_PreviousVersion = prep_PreviousVersion (cer_Prepare request),
            sw_LastFailure = None\<rparr> = Inr tx1" ..
  have c: "CompleteNewStateExecution (pu_StateExecutionSequenceMaps prcRow)
             (cer_StateId request) (cer_StateIdSequence request) = Inl StateNotPending"
    using absent by (simp add: CompleteNewStateExecution_def)
  have "doCompleteExecuteExecutionTx db request =
          Inl (NonExistingStateExecution (cer_StateId request) (cer_StateIdSequence request)
                 (pu_StateExecutionSequenceMaps prcRow) StateNotPending)"
    using sel u c by (simp add: doCompleteExecuteExecutionTx_def Let_def)
  then show ?thesis by (simp add: CompleteExecuteExecution_def)
qed

text \<open>
  In \<open>example_db_S1_done\<close> the row of \<open>S1\<close> is at version 2 and \<open>S1\<close> has left the
  pending map. A request that brings the current version gets the data-corruption error.
\<close>

theorem completing_absent_state_is_data_corruption_witness:
  "(''S1'', 1) \<notin> PendingExecutionMap example_maps_S1_done \<and>
   CompleteExecuteExecution example_db_S1_done
       (example_request_plain\<lparr>cer_Prepare := example_prepare\<lparr>prep_PreviousVersion := 2\<rparr>\<rparr>) =
     (example_db_S1_done,
      Inl (NonExistingStateExecution ''S1'' 1 example_maps_S1_done StateNotPending))"
  using completing_absent_state_is_data_corruption
          [of example_db_S1_done
              "example_request_plain\<lparr>cer_Prepare := example_prepare\<lparr>prep_PreviousVersion := 2\<rparr>\<rparr>"
              "example_locked_row\<lparr>pu_StateExecutionSequenceMaps := example_maps_S1_done\<rparr>"]
  by (simp add: example_db_S1_done_def example_maps_S1_done_def example_request_plain_def
        example_db_defs SelectProcessExecutionForUpdate_def)

text \<open>
  Against claim C5 as stated: the same database, and a request that still brings version
  1, as the loser of a race does. \<open>S1\<close> is absent from the pending map, yet the error is
  the conditional-update failure, since the version is checked first.
\<close>

theorem stale_version_is_reported_first_counterexample:
  "(cer_StateId example_request_plain, cer_StateIdSequence example_request_plain) \<notin>
     PendingExecutionMap example_maps_S1_done \<and>
   map pe_StateExecutionSequenceMaps (xdb_sys_process_executions example_db_S1_done) =
     [example_maps_S1_done] \<and>
   CompleteExecuteExecution example_db_S1_done example_request_plain =
     (example_db_S1_done, Inl conditionalUpdateFailure)"
  by (simp add: CompleteExecuteExecution_def doCompleteExecuteExecutionTx_def store_defs
        example_db_S1_done_def example_maps_S1_done_def example_request_plain_def
        example_db_defs Let_def)

section \<open>Force close aborts the running state executions\<close>

text \<open>
  Claim C8. Let \<^verbatim>\<open>CompleteExecuteExecution\<close> succeed on a decision to force-complete or
  force-fail the process while another state execution is pending. Then every row of the
  process in the process table has the status \<^verbatim>\<open>Completed\<close>, respectively \<^verbatim>\<open>Failed\<close>,
  and an empty pending-execution map; and the state-execution table is the result of one
  batch statement on the table as the conditional update of the current state and the
  inserts of the next states left it: in every row of the process a phase status that was
  \<^verbatim>\<open>Running\<close> is \<^verbatim>\<open>Aborted\<close>, any other phase status is unchanged, the version is one
  higher when a phase was running and unchanged otherwise; the rows of other processes
  are unchanged.
\<close>

theorem force_close_aborts_running_states:
  assumes ok: "doCompleteExecuteExecutionTx tx request = Inr (tx', resp)"
    and sel: "SelectProcessExecutionForUpdate tx (cer_ProcessExecutionId request) = Inr prcRow"
    and dec: "sd_ThreadCloseDecision (cer_StateDecision request) = Some d"
    and force: "CloseType d = FORCE_COMPLETE_PROCESS \<or> CloseType d = FORCE_FAIL_PROCESS"
    and others: "PendingExecutionMap (pu_StateExecutionSequenceMaps prcRow) -
                   {(cer_StateId request, cer_StateIdSequence request)} \<noteq> {}"
  shows "(\<forall>r \<in> set (xdb_sys_process_executions tx').
            pe_ProcessExecutionId r = cer_ProcessExecutionId request \<longrightarrow>
            pe_Status r = (if CloseType d = FORCE_COMPLETE_PROCESS
                           then ProcessExecutionStatusCompleted
                           else ProcessExecutionStatusFailed) \<and>
            PendingExecutionMap (pe_StateExecutionSequenceMaps r) = {}) \<and>
         (\<exists>tx1 maps1 tx2 maps2.
            CompleteNewStateExecution (pu_StateExecutionSequenceMaps prcRow)
              (cer_StateId request) (cer_StateIdSequence request) = Inr maps1 \<and>
            UpdateAsyncStateExecutionWithoutCommands tx
              \<lparr>sw_ProcessExecutionId = cer_ProcessExecutionId request,
               sw_StateId = cer_StateId request,
               sw_StateIdSequence = cer_StateIdSequence request,
               sw_Status = StateExecutionStatusCompleted,
               sw_PreviousVersion = prep_PreviousVersion (cer_Prepare request),
               sw_LastFailure = None\<rparr> = Inr tx1 \<and>
            (if sd_NextStates (cer_StateDecision request) \<noteq> []
             then startNextStates tx1 maps1 (cer_ProcessExecutionId request)
                    (prep_Info (cer_Prepare request)) (cer_TaskShardId request)
                    (sd_NextStates (cer_StateDecision request))
             else Inr (tx1, maps1)) = Inr (tx2, maps2) \<and>
            list_all2
              (\<lambda>r r'. if se_ProcessExecutionId r = cer_ProcessExecutionId request
                       then r' = r\<lparr>se_Version :=
                                     (if se_WaitUntilStatus r = StateExecutionStatusRunning \<or>
                                         se_ExecuteStatus r = StateExecutionStatusRunning
                                      then se_Version r + 1 else se_Version r),
                                   se_WaitUntilStatus :=
                                     (if se_WaitUntilStatus r = StateExecutionStatusRunning
                                      then StateExecutionStatusAborted
                                      else se_WaitUntilStatus r),
                                   se_ExecuteStatus :=
                                     (if se_ExecuteStatus r = StateExecutionStatusRunning
                                      then StateExecutionStatusAborted
                                      else se_ExecuteStatus r)\<rparr>
                       else r' = r)
              (xdb_sys_async_state_executions tx2) (xdb_sys_async_state_executions tx'))"
proof -
  from ok obtain prcRow' tx1 maps1 tx2 maps2 prcRow1 maps3 toAbort where
    1: "SelectProcessExecutionForUpdate tx (cer_ProcessExecutionId request) = Inr prcRow'"
    and 2: "UpdateAsyncStateExecutionWithoutCommands tx
           \<lparr>sw_ProcessExecutionId = cer_ProcessExecutionId request,
            sw_StateId = cer_StateId request,
            sw_StateIdSequence = cer_StateIdSequence request,
            sw_Status = StateExecutionStatusCompleted,
            sw_PreviousVersion = prep_PreviousVersion (cer_Prepare request),
            sw_LastFailure = None\<rparr> = Inr tx1"
    and 3: "CompleteNewStateExecution (pu_StateExecutionSequenceMaps prcRow')
           (cer_StateId request) (cer_StateIdSequence request) = Inr maps1"
    and 4: "(if sd_NextStates (cer_StateDecision request) \<noteq> []
          then startNextStates tx1 maps1 (cer_ProcessExecutionId request)
                 (prep_Info (cer_Prepare request)) (cer_TaskShardId request)
                 (sd_NextStates (cer_StateDecision request))
          else Inr (tx1, maps1)) = Inr (tx2, maps2)"
    and 5: "closeThread prcRow' maps2 (cer_StateDecision request) = (prcRow1, maps3, toAbort)"
    and 6: "publishToLocalQueue
           ((if toAbort
             then tx2\<lparr>xdb_sys_async_state_executions :=
                      map (\<lambda>r. if se_ProcessExecutionId r = cer_ProcessExecutionId request
                                then abortRunning r else r)
                          (xdb_sys_async_state_executions tx2)\<rparr>
             else tx2)
            \<lparr>xdb_sys_process_executions :=
               map (\<lambda>r. if pe_ProcessExecutionId r = pu_ProcessExecutionId prcRow1
                         then r\<lparr>pe_Status := pu_Status prcRow1,
                                pe_HistoryEventIdSequence := pu_HistoryEventIdSequence prcRow1,
                                pe_StateExecutionSequenceMaps := maps3,
                                pe_WaitToComplete := pu_WaitToComplete prcRow1\<rparr>
                         else r)
                   (xdb_sys_process_executions tx2)\<rparr>)
           (cer_ProcessExecutionId request) (cer_PublishToLocalQueue request) = Inr tx'"
    by (rule doCompleteExecuteExecutionTx_Inr)
  from 1 sel have eq: "prcRow' = prcRow" by simp
  have m1: "PendingExecutionMap maps1 =
              PendingExecutionMap (pu_StateExecutionSequenceMaps prcRow) -
                {(cer_StateId request, cer_StateIdSequence request)}"
    using 3 eq by (auto simp: CompleteNewStateExecution_def split: if_splits)
  have sub: "PendingExecutionMap maps1 \<subseteq> PendingExecutionMap maps2"
  proof (cases "sd_NextStates (cer_StateDecision request) \<noteq> []")
    case True
    with 4 show ?thesis using startNextStates_frame by simp
  next
    case False
    with 4 show ?thesis by simp
  qed
  have ne: "PendingExecutionMap maps2 \<noteq> {}" using m1 sub others by auto
  have ct: "prcRow1 = prcRow\<lparr>pu_Status := (if CloseType d = FORCE_COMPLETE_PROCESS
                                   then ProcessExecutionStatusCompleted
                                   else ProcessExecutionStatusFailed)\<rparr>"
    and m3: "maps3 = maps2\<lparr>PendingExecutionMap := {}\<rparr>" and ab: "toAbort"
    using 5 closeThread_force [OF dec force ne, of prcRow] eq by simp_all
  have id: "pu_ProcessExecutionId prcRow = cer_ProcessExecutionId request"
    using SelectProcessExecutionForUpdate_Inr [OF sel] .
  have rows: "xdb_sys_async_state_executions tx' =
          map (\<lambda>r. if se_ProcessExecutionId r = cer_ProcessExecutionId request
                    then abortRunning r else r)
              (xdb_sys_async_state_executions tx2)"
    using 6 ab by (auto simp: publishToLocalQueue_eq)
  have prc: "xdb_sys_process_executions tx' =
          map (\<lambda>r. if pe_ProcessExecutionId r = cer_ProcessExecutionId request
                    then r\<lparr>pe_Status := pu_Status prcRow1,
                           pe_HistoryEventIdSequence := pu_HistoryEventIdSequence prcRow1,
                           pe_StateExecutionSequenceMaps := maps3,
                           pe_WaitToComplete := pu_WaitToComplete prcRow1\<rparr>
                    else r)
              (xdb_sys_process_executions tx2)"
    using 6 ab ct id by (auto simp: publishToLocalQueue_eq)
  have a: "\<forall>r \<in> set (xdb_sys_process_executions tx').
            pe_ProcessExecutionId r = cer_ProcessExecutionId request \<longrightarrow>
            pe_Status r = (if CloseType d = FORCE_COMPLETE_PROCESS
                           then ProcessExecutionStatusCompleted
                           else ProcessExecutionStatusFailed) \<and>
            PendingExecutionMap (pe_StateExecutionSequenceMaps r) = {}"
    unfolding prc using ct m3 by auto
  have b: "list_all2
              (\<lambda>r r'. if se_ProcessExecutionId r = cer_ProcessExecutionId request
                       then r' = r\<lparr>se_Version :=
                                     (if se_WaitUntilStatus r = StateExecutionStatusRunning \<or>
                                         se_ExecuteStatus r = StateExecutionStatusRunning
                                      then se_Version r + 1 else se_Version r),
                                   se_WaitUntilStatus :=
                                     (if se_WaitUntilStatus r = StateExecutionStatusRunning
                                      then StateExecutionStatusAborted
                                      else se_WaitUntilStatus r),
                                   se_ExecuteStatus :=
                                     (if se_ExecuteStatus r = StateExecutionStatusRunning
                                      then StateExecutionStatusAborted
                                      else se_ExecuteStatus r)\<rparr>
                       else r' = r)
              (xdb_sys_async_state_executions tx2) (xdb_sys_async_state_executions tx')"
    unfolding rows list_all2_map_same by (simp add: abortRunning_def)
  from 3 eq have c3: "CompleteNewStateExecution (pu_StateExecutionSequenceMaps prcRow)
              (cer_StateId request) (cer_StateIdSequence request) = Inr maps1"
    by simp
  from a c3 2 4 b show ?thesis by blast
qed

theorem force_close_aborts_running_states_witness:
  "PendingExecutionMap (pu_StateExecutionSequenceMaps example_locked_row) - {(''S1'', 1)} \<noteq> {} \<and>
   map pe_Status
     (xdb_sys_process_executions
        (fst (CompleteExecuteExecution example_db example_request_force_fail))) =
     [ProcessExecutionStatusFailed] \<and>
   xdb_sys_async_state_executions
     (fst (CompleteExecuteExecution example_db example_request_force_fail)) ! 1 =
     example_S2\<lparr>se_Version := 8, se_WaitUntilStatus := StateExecutionStatusAborted\<rparr>"
  using force_close_aborts_running_states
          [of example_db example_request_force_fail
              "fst (CompleteExecuteExecution example_db example_request_force_fail)" False
              example_locked_row "\<lparr>CloseType = FORCE_FAIL_PROCESS\<rparr>"]
  by (simp add: CompleteExecuteExecution_def doCompleteExecuteExecutionTx_def store_defs
        example_db_defs example_request_force_fail_def Let_def)

section \<open>Starting a process that is already started\<close>

text \<open>
  Claim C4. When the latest-process pointer of (namespace, processId) exists,
  \<^verbatim>\<open>StartProcess\<close> returns no response, \<^verbatim>\<open>alreadyStarted = true\<close> and a nil error, and
  the database afterwards is the database before: no pointer, process row,
  state-execution row or task has been added.
\<close>

theorem StartProcess_already_started:
  assumes "\<exists>r \<in> set (xdb_sys_latest_process_executions db).
             lp_Namespace r = req_Namespace request \<and> lp_ProcessId r = req_ProcessId request"
  shows "StartProcess db now prcExeId request = (db, None, True, None)"
  using assms by (simp add: StartProcess_def InsertLatestProcessExecution_def IsDupEntryError_def)

theorem StartProcess_already_started_witness:
  "lp_ProcessId (hd (xdb_sys_latest_process_executions example_db)) =
     req_ProcessId example_start_request \<and>
   StartProcess example_db 5 ''p2'' example_start_request = (example_db, None, True, None)"
  using StartProcess_already_started [of example_db example_start_request 5 "''p2''"]
  by (simp add: example_db_defs example_start_request_def)

section \<open>The initial statuses of a state execution\<close>

text \<open>
  Claim C6. When \<^verbatim>\<open>insertAsyncStateExecution\<close> and \<^verbatim>\<open>insertImmediateTask\<close> succeed for a
  state, exactly one state-execution row and one immediate task are added, both under
  the sequence number converted to \<^verbatim>\<open>int32\<close>. With
  \<^verbatim>\<open>SkipWaitUntil\<close> set in the state config the row has \<^verbatim>\<open>WaitUntilStatus = Skipped\<close> and
  \<^verbatim>\<open>ExecuteStatus = Running\<close> and the task has type \<^verbatim>\<open>Execute\<close>; otherwise the row has
  \<^verbatim>\<open>WaitUntilStatus = Running\<close> and \<^verbatim>\<open>ExecuteStatus = Undefined\<close> and the task has type
  \<^verbatim>\<open>WaitUntil\<close>. The row and the task that \<^verbatim>\<open>StartProcess\<close> inserts for the start state
  follow the same rule.
\<close>

theorem initial_statuses_follow_SkipWaitUntil:
  "(insertAsyncStateExecution tx peid stateId stateIdSeq stateConfig stateInput stateInfo = Inr tx1 \<and>
    insertImmediateTask tx1 peid stateId stateIdSeq stateConfig shardId = Inr tx2 \<longrightarrow>
      (\<exists>r t. xdb_sys_async_state_executions tx2 = xdb_sys_async_state_executions tx @ [r] \<and>
             xdb_sys_immediate_tasks tx2 = xdb_sys_immediate_tasks tx @ [t] \<and>
             se_ProcessExecutionId r = peid \<and> se_StateId r = stateId \<and>
             se_StateIdSequence r = int32 stateIdSeq \<and>
             it_ProcessExecutionId t = peid \<and> it_StateId t = stateId \<and>
             it_StateIdSequence t = int32 stateIdSeq \<and>
             (if GetSkipWaitUntil stateConfig
              then se_WaitUntilStatus r = StateExecutionStatusSkipped \<and>
                   se_ExecuteStatus r = StateExecutionStatusRunning \<and>
                   it_TaskType t = ImmediateTaskTypeExecute
              else se_WaitUntilStatus r = StateExecutionStatusRunning \<and>
                   se_ExecuteStatus r = StateExecutionStatusUndefined \<and>
                   it_TaskType t = ImmediateTaskTypeWaitUntil))) \<and>
   (StartProcess db now prcExeId request = (db', Some prcExeId, False, None) \<and>
    req_StartStateId request = Some startStateId \<longrightarrow>
      (\<exists>r t. xdb_sys_async_state_executions db' = xdb_sys_async_state_executions db @ [r] \<and>
             xdb_sys_immediate_tasks db' = xdb_sys_immediate_tasks db @ [t] \<and>
             se_ProcessExecutionId r = prcExeId \<and> se_StateId r = startStateId \<and>
             se_StateIdSequence r = 1 \<and>
             it_ProcessExecutionId t = prcExeId \<and> it_StateId t = startStateId \<and>
             it_StateIdSequence t = 1 \<and>
             (if GetSkipWaitUntil (req_StartStateConfig request)
              then se_WaitUntilStatus r = StateExecutionStatusSkipped \<and>
                   se_ExecuteStatus r = StateExecutionStatusRunning \<and>
                   it_TaskType t = ImmediateTaskTypeExecute
              else se_WaitUntilStatus r = StateExecutionStatusRunning \<and>
                   se_ExecuteStatus r = StateExecutionStatusUndefined \<and>
                   it_TaskType t = ImmediateTaskTypeWaitUntil)))"
proof (intro conjI impI)
  assume a: "insertAsyncStateExecution tx peid stateId stateIdSeq stateConfig stateInput stateInfo = Inr tx1 \<and>
    insertImmediateTask tx1 peid stateId stateIdSeq stateConfig shardId = Inr tx2"
  then have 1: "insertAsyncStateExecution tx peid stateId stateIdSeq stateConfig stateInput stateInfo = Inr tx1"
    and 2: "insertImmediateTask tx1 peid stateId stateIdSeq stateConfig shardId = Inr tx2"
    by simp_all
  show "\<exists>r t. xdb_sys_async_state_executions tx2 = xdb_sys_async_state_executions tx @ [r] \<and>
             xdb_sys_immediate_tasks tx2 = xdb_sys_immediate_tasks tx @ [t] \<and>
             se_ProcessExecutionId r = peid \<and> se_StateId r = stateId \<and>
             se_StateIdSequence r = int32 stateIdSeq \<and>
             it_ProcessExecutionId t = peid \<and> it_StateId t = stateId \<and>
             it_StateIdSequence t = int32 stateIdSeq \<and>
             (if GetSkipWaitUntil stateConfig
              then se_WaitUntilStatus r = StateExecutionStatusSkipped \<and>
                   se_ExecuteStatus r = StateExecutionStatusRunning \<and>
                   it_TaskType t = ImmediateTaskTypeExecute
              else se_WaitUntilStatus r = StateExecutionStatusRunning \<and>
                   se_ExecuteStatus r = StateExecutionStatusUndefined \<and>
                   it_TaskType t = ImmediateTaskTypeWaitUntil)"
    using insertAsyncStateExecution_Inr [OF 1] 2
    by (cases "GetSkipWaitUntil stateConfig") (auto simp: insertImmediateTask_eq)
next
  assume a: "StartProcess db now prcExeId request = (db', Some prcExeId, False, None) \<and>
    req_StartStateId request = Some startStateId"
  then show "\<exists>r t. xdb_sys_async_state_executions db' = xdb_sys_async_state_executions db @ [r] \<and>
             xdb_sys_immediate_tasks db' = xdb_sys_immediate_tasks db @ [t] \<and>
             se_ProcessExecutionId r = prcExeId \<and> se_StateId r = startStateId \<and>
             se_StateIdSequence r = 1 \<and>
             it_ProcessExecutionId t = prcExeId \<and> it_StateId t = startStateId \<and>
             it_StateIdSequence t = 1 \<and>
             (if GetSkipWaitUntil (req_StartStateConfig request)
              then se_WaitUntilStatus r = StateExecutionStatusSkipped \<and>
                   se_ExecuteStatus r = StateExecutionStatusRunning \<and>
                   it_TaskType t = ImmediateTaskTypeExecute
              else se_WaitUntilStatus r = StateExecutionStatusRunning \<and>
                   se_ExecuteStatus r = StateExecutionStatusUndefined \<and>
                   it_TaskType t = ImmediateTaskTypeWaitUntil)"
    by (cases "GetSkipWaitUntil (req_StartStateConfig request)")
       (auto simp: StartProcess_def InsertLatestProcessExecution_def
          InsertAsyncStateExecution_def InsertImmediateTask_def InsertProcessExecution_def
          Let_def IsDupEntryError_def
          split: if_splits)
qed

theorem initial_statuses_follow_SkipWaitUntil_witness:
  "insertAsyncStateExecution example_db ''p1'' ''S3'' 1 (Some example_config) [] example_info =
     Inr (example_db\<lparr>xdb_sys_async_state_executions := [example_S1, example_S2, example_S3]\<rparr>) \<and>
   insertImmediateTask
       (example_db\<lparr>xdb_sys_async_state_executions := [example_S1, example_S2, example_S3]\<rparr>)
       ''p1'' ''S3'' 1 (Some example_config) 0 =
     Inr (example_db\<lparr>xdb_sys_async_state_executions := [example_S1, example_S2, example_S3],
                     xdb_sys_immediate_tasks := [example_S3_task]\<rparr>) \<and>
   GetSkipWaitUntil (Some example_config) \<and>
   se_WaitUntilStatus example_S3 = StateExecutionStatusSkipped \<and>
   se_ExecuteStatus example_S3 = StateExecutionStatusRunning \<and>
   it_TaskType example_S3_task = ImmediateTaskTypeExecute \<and>
   snd (StartProcess example_db 5 ''p2'' (example_start_request\<lparr>req_ProcessId := ''other''\<rparr>)) =
     (Some ''p2'', False, None) \<and>
   map (\<lambda>r. (se_WaitUntilStatus r, se_ExecuteStatus r))
     (xdb_sys_async_state_executions
        (fst (StartProcess example_db 5 ''p2''
                (example_start_request\<lparr>req_ProcessId := ''other''\<rparr>)))) =
     [(StateExecutionStatusSkipped, StateExecutionStatusRunning),
      (StateExecutionStatusRunning, StateExecutionStatusUndefined),
      (StateExecutionStatusRunning, StateExecutionStatusUndefined)] \<and>
   map it_TaskType
     (xdb_sys_immediate_tasks
        (fst (StartProcess example_db 5 ''p2''
                (example_start_request\<lparr>req_ProcessId := ''other''\<rparr>)))) =
     [ImmediateTaskTypeWaitUntil]"
  using initial_statuses_follow_SkipWaitUntil
          [of example_db "''p1''" "''S3''" 1 "Some example_config" "[]" example_info
              "example_db\<lparr>xdb_sys_async_state_executions :=
                 [example_S1, example_S2, example_S3]\<rparr>"
              0
              "example_db\<lparr>xdb_sys_async_state_executions :=
                 [example_S1, example_S2, example_S3],
                 xdb_sys_immediate_tasks := [example_S3_task]\<rparr>"
              example_db 5 "''p2''" "example_start_request\<lparr>req_ProcessId := ''other''\<rparr>"
              "fst (StartProcess example_db 5 ''p2''
                      (example_start_request\<lparr>req_ProcessId := ''other''\<rparr>))"
              "''S1''"]
  by (simp add: example_db_defs example_S3_def example_S3_task_def example_config_def
        example_start_request_def insertAsyncStateExecution_def insertImmediateTask_def
        InsertAsyncStateExecution_def InsertImmediateTask_def GetSkipWaitUntil_def
        StartProcess_def InsertLatestProcessExecution_def InsertProcessExecution_def
        IsDupEntryError_def DefaultShardId_def orDefault_def Let_def int32_def)

section \<open>An empty command request completes the wait-until phase\<close>

lemma CompleteWaitUntilExecution_Inr:
  assumes "CompleteWaitUntilExecution tx request = Inr tx1"
  shows "length (filter (\<lambda>r. se_ProcessExecutionId r = cwr_ProcessExecutionId request \<and>
                             se_StateId r = cwr_StateId request \<and>
                             se_StateIdSequence r = cwr_StateIdSequence request \<and>
                             se_Version r = cwr_PreviousVersion request)
                   (xdb_sys_async_state_executions tx)) = 1"
    and "tx1 = tx\<lparr>xdb_sys_async_state_executions :=
                    map (\<lambda>r. if se_ProcessExecutionId r = cwr_ProcessExecutionId request \<and>
                                 se_StateId r = cwr_StateId request \<and>
                                 se_StateIdSequence r = cwr_StateIdSequence request \<and>
                                 se_Version r = cwr_PreviousVersion request
                              then r\<lparr>se_Version := cwr_PreviousVersion request + 1,
                                     se_Status := StateExecutionStatusExecuteRunning,
                                     se_LastFailure := None\<rparr>
                              else r)
                        (xdb_sys_async_state_executions tx),
                  xdb_sys_immediate_tasks :=
                    xdb_sys_immediate_tasks tx @
                    [\<lparr>it_ShardId = cwr_TaskShardId request,
                      it_TaskType = ImmediateTaskTypeExecute,
                      it_ProcessExecutionId = cwr_ProcessExecutionId request,
                      it_StateId = cwr_StateId request,
                      it_StateIdSequence = cwr_StateIdSequence request,
                      it_Info = None\<rparr>]\<rparr>"
  using assms
  by (auto simp: CompleteWaitUntilExecution_def UpdateAsyncStateExecutionWithoutCommands_def
        updateWithoutCommandsMatches_def [abs_def] InsertImmediateTask_def Let_def
        split: if_splits)

text \<open>
  Claim C7. Let \<^verbatim>\<open>ProcessWaitUntilExecution\<close> succeed on a command request whose waiting
  type is \<^verbatim>\<open>EMPTY_COMMAND\<close>. Then \<^verbatim>\<open>CompleteWaitUntilExecution\<close> has run: exactly one row
  had the key and the supplied \<^verbatim>\<open>PreviousVersion\<close>, that row now has the status
  \<^verbatim>\<open>ExecuteRunning\<close> at \<^verbatim>\<open>PreviousVersion + 1\<close> and every other row is unchanged; the tasks
  of type \<^verbatim>\<open>Execute\<close> are those of before and one more, for that state execution; and the
  response has \<^verbatim>\<open>HasNewImmediateTask = true\<close>.
\<close>

theorem empty_command_completes_wait_until:
  assumes empty: "WaitingType (pwr_CommandRequest request) = EMPTY_COMMAND"
    and ok: "doProcessWaitUntilExecutionTx addCommands doProcessLocalQueueMessageTx tx request
               = Inr (tx', resp)"
  shows "resp = True \<and>
         (\<exists>tx1. CompleteWaitUntilExecution tx
                   \<lparr>cwr_TaskShardId = pwr_TaskShardId request,
                    cwr_ProcessExecutionId = pwr_ProcessExecutionId request,
                    cwr_StateId = pwr_StateId request,
                    cwr_StateIdSequence = pwr_StateIdSequence request,
                    cwr_PreviousVersion = prep_PreviousVersion (pwr_Prepare request)\<rparr> = Inr tx1) \<and>
         length (filter (\<lambda>r. se_ProcessExecutionId r = pwr_ProcessExecutionId request \<and>
                             se_StateId r = pwr_StateId request \<and>
                             se_StateIdSequence r = pwr_StateIdSequence request \<and>
                             se_Version r = prep_PreviousVersion (pwr_Prepare request))
                   (xdb_sys_async_state_executions tx)) = 1 \<and>
         list_all2
           (\<lambda>r r'. if se_ProcessExecutionId r = pwr_ProcessExecutionId request \<and>
                       se_StateId r = pwr_StateId request \<and>
                       se_StateIdSequence r = pwr_StateIdSequence request \<and>
                       se_Version r = prep_PreviousVersion (pwr_Prepare request)
                    then r' = r\<lparr>se_Version := prep_PreviousVersion (pwr_Prepare request) + 1,
                                se_Status := StateExecutionStatusExecuteRunning,
                                se_LastFailure := None\<rparr>
                    else r' = r)
           (xdb_sys_async_state_executions tx) (xdb_sys_async_state_executions tx') \<and>
         filter (\<lambda>t. it_TaskType t = ImmediateTaskTypeExecute) (xdb_sys_immediate_tasks tx') =
           filter (\<lambda>t. it_TaskType t = ImmediateTaskTypeExecute) (xdb_sys_immediate_tasks tx) @
           [\<lparr>it_ShardId = pwr_TaskShardId request,
             it_TaskType = ImmediateTaskTypeExecute,
             it_ProcessExecutionId = pwr_ProcessExecutionId request,
             it_StateId = pwr_StateId request,
             it_StateIdSequence = pwr_StateIdSequence request,
             it_Info = None\<rparr>]"
proof -
  let ?req = "\<lparr>cwr_TaskShardId = pwr_TaskShardId request,
                cwr_ProcessExecutionId = pwr_ProcessExecutionId request,
                cwr_StateId = pwr_StateId request,
                cwr_StateIdSequence = pwr_StateIdSequence request,
                cwr_PreviousVersion = prep_PreviousVersion (pwr_Prepare request)\<rparr>"
  from ok empty obtain tx1 where
    c: "CompleteWaitUntilExecution tx ?req = Inr tx1"
    by (cases "CompleteWaitUntilExecution tx ?req")
       (simp_all add: doProcessWaitUntilExecutionTx_def)
  from ok empty c have
    p: "publishToLocalQueue tx1 (pwr_ProcessExecutionId request)
          (pwr_PublishToLocalQueue request) = Inr tx'"
    and r: "resp = True"
    by (auto simp: doProcessWaitUntilExecutionTx_def split: sum.splits if_splits)
  note n = CompleteWaitUntilExecution_Inr(1) [OF c]
  note e = CompleteWaitUntilExecution_Inr(2) [OF c]
  have rows: "xdb_sys_async_state_executions tx' = xdb_sys_async_state_executions tx1"
    and tasks: "xdb_sys_immediate_tasks tx' =
      xdb_sys_immediate_tasks tx1 @
      map (\<lambda>message.
             \<lparr>it_ShardId = DefaultShardId,
              it_TaskType = ImmediateTaskTypeNewLocalQueueMessage,
              it_ProcessExecutionId = pwr_ProcessExecutionId request,
              it_StateId = [],
              it_StateIdSequence = 0,
              it_Info = Some \<lparr>lqi_QueueName = msg_QueueName message,
                               lqi_DedupId = msg_DedupId message\<rparr>\<rparr>)
          (pwr_PublishToLocalQueue request)"
    using p by (auto simp: publishToLocalQueue_eq)
  have l: "list_all2
           (\<lambda>r r'. if se_ProcessExecutionId r = pwr_ProcessExecutionId request \<and>
                       se_StateId r = pwr_StateId request \<and>
                       se_StateIdSequence r = pwr_StateIdSequence request \<and>
                       se_Version r = prep_PreviousVersion (pwr_Prepare request)
                    then r' = r\<lparr>se_Version := prep_PreviousVersion (pwr_Prepare request) + 1,
                                se_Status := StateExecutionStatusExecuteRunning,
                                se_LastFailure := None\<rparr>
                    else r' = r)
           (xdb_sys_async_state_executions tx) (xdb_sys_async_state_executions tx')"
    unfolding rows e by (simp add: list_all2_map_same)
  have f: "filter (\<lambda>t. it_TaskType t = ImmediateTaskTypeExecute) (xdb_sys_immediate_tasks tx') =
           filter (\<lambda>t. it_TaskType t = ImmediateTaskTypeExecute) (xdb_sys_immediate_tasks tx) @
           [\<lparr>it_ShardId = pwr_TaskShardId request,
             it_TaskType = ImmediateTaskTypeExecute,
             it_ProcessExecutionId = pwr_ProcessExecutionId request,
             it_StateId = pwr_StateId request,
             it_StateIdSequence = pwr_StateIdSequence request,
             it_Info = None\<rparr>]"
    unfolding tasks e by (simp add: filter_map o_def)
  from r c n l f show ?thesis by auto
qed

theorem empty_command_completes_wait_until_witness:
  "WaitingType (pwr_CommandRequest example_wait_until_request) = EMPTY_COMMAND \<and>
   snd (ProcessWaitUntilExecution no_commands no_messages example_db example_wait_until_request)
     = Inr True \<and>
   xdb_sys_async_state_executions
     (fst (ProcessWaitUntilExecution no_commands no_messages example_db
             example_wait_until_request)) =
     [example_S1,
      example_S2\<lparr>se_Version := 8, se_Status := StateExecutionStatusExecuteRunning\<rparr>] \<and>
   map it_TaskType
     (xdb_sys_immediate_tasks
        (fst (ProcessWaitUntilExecution no_commands no_messages example_db
                example_wait_until_request))) =
     [ImmediateTaskTypeExecute, ImmediateTaskTypeNewLocalQueueMessage]"
  using empty_command_completes_wait_until
          [of example_wait_until_request no_commands no_messages example_db
              "fst (ProcessWaitUntilExecution no_commands no_messages example_db
                      example_wait_until_request)" True]
  by (simp add: ProcessWaitUntilExecution_def doProcessWaitUntilExecutionTx_def
        CompleteWaitUntilExecution_def store_defs example_db_defs
        example_wait_until_request_def Let_def)

section \<open>The retry policy of the task processor\<close>

text \<open>
  With a state config in the state info, a failed worker call is decided by
  \<^verbatim>\<open>GetNextBackoff\<close> on the attempts of the task (the failed one counted) and the
  \<^verbatim>\<open>WaitUntilApiRetryPolicy\<close> of the state config, for a wait-until task and for an
  execute task alike; the \<^verbatim>\<open>ExecuteApiRetryPolicy\<close> has no influence on the decision.
\<close>

lemma retry_decision_with_StateConfig:
  assumes cfg: "info_StateConfig (prep_Info prep) = Some stateConfig"
  shows "processExecuteTaskFailed m startSeconds nowSeconds task prep =
           Inr (case GetNextBackoff m nowSeconds
                       (int32 ((case task_WorkerTaskBackoffInfo task of
                                  None \<Rightarrow> 0 | Some i \<Rightarrow> CompletedAttempts i) + 1))
                       (case task_WorkerTaskBackoffInfo task of
                          None \<Rightarrow> startSeconds | Some i \<Rightarrow> FirstAttemptTimestampSeconds i)
                       (WaitUntilApiRetryPolicy stateConfig) of
                  (nextIntervalSecs, shouldRetry) \<Rightarrow>
                    if shouldRetry then RetryTask nextIntervalSecs else ReturnError) \<and>
         processWaitUntilTaskFailed m startSeconds nowSeconds task prep =
           processExecuteTaskFailed m startSeconds nowSeconds task prep \<and>
         processExecuteTaskFailed m startSeconds nowSeconds task
             (prep\<lparr>prep_Info := (prep_Info prep)
                \<lparr>info_StateConfig := Some (stateConfig\<lparr>ExecuteApiRetryPolicy := policy\<rparr>)\<rparr>\<rparr>) =
           processExecuteTaskFailed m startSeconds nowSeconds task prep"
  using cfg
  by (auto simp: processExecuteTaskFailed_def processWaitUntilTaskFailed_def
        onWorkerFailure_def checkRetry_def countAttempt_def createWorkerTaskBackoffInfo_def
        Let_def split: option.splits prod.splits)

text \<open>
  The first failure of an execute task under the example config: the execute policy
  allows one attempt and would give up, the wait-until policy allows three, and the task
  is retried after 2 seconds.
\<close>

lemma retry_decision_example:
  "processExecuteTaskFailed m 0 50 example_task
       (example_prepare\<lparr>prep_Info := example_info\<lparr>info_StateConfig := Some example_config\<rparr>\<rparr>) =
     Inr (RetryTask 2) \<and>
   GetNextBackoff m 50 1 0 (WaitUntilApiRetryPolicy example_config) = (2, True) \<and>
   GetNextBackoff m 50 1 0 (ExecuteApiRetryPolicy example_config) = (0, False)"
  by (simp add: example_config_def example_task_def example_prepare_def example_info_def
        policy_three_attempts_def int32_def exact_float64_def
        processExecuteTaskFailed_def onWorkerFailure_def
        checkRetry_def countAttempt_def GetNextBackoff_def setDefaultRetryPolicyValue_def
        orDefault_def defaultWorkerTaskBackoffRetryPolicy_def int32_of_float64_def int64_def
        math_Pow_def trunc_toward_zero_def)

text \<open>
  Without a state config \<^verbatim>\<open>checkRetry\<close> reads \<^verbatim>\<open>info.StateConfig.WaitUntilApiRetryPolicy\<close>
  through a nil pointer: the call panics and no decision is made, whatever the task and
  the clock.
\<close>

lemma checkRetry_nil_StateConfig:
  assumes "info_StateConfig (prep_Info prep) = None"
  shows "processWaitUntilTaskFailed m startSeconds nowSeconds task prep =
           Inl NilPointerDereference"
    and "processExecuteTaskFailed m startSeconds nowSeconds task prep =
           Inl NilPointerDereference"
  using assms
  by (simp_all add: processExecuteTaskFailed_def processWaitUntilTaskFailed_def
        onWorkerFailure_def checkRetry_def countAttempt_def Let_def split: option.splits)

text \<open>
  Claim C10 does not hold of every failed worker call. \<^verbatim>\<open>StartProcess\<close> stores the state
  info of the start state without a state config, also when the request carries one.
  When the worker call of such a state fails, \<^verbatim>\<open>checkRetry\<close> reads the retry policy
  through the nil state config and panics, for the wait-until task and for the execute
  task: no retry decision is computed, from neither policy.
\<close>

theorem failed_call_without_StateConfig_panics:
  "snd (StartProcess example_db 5 ''p2''
          (example_start_request\<lparr>req_ProcessId := ''other'',
                                  req_StartStateConfig := Some example_config\<rparr>)) =
     (Some ''p2'', False, None) \<and>
   se_StateId (last (xdb_sys_async_state_executions
     (fst (StartProcess example_db 5 ''p2''
             (example_start_request\<lparr>req_ProcessId := ''other'',
                                     req_StartStateConfig := Some example_config\<rparr>))))) = ''S1'' \<and>
   se_ProcessExecutionId (last (xdb_sys_async_state_executions
     (fst (StartProcess example_db 5 ''p2''
             (example_start_request\<lparr>req_ProcessId := ''other'',
                                     req_StartStateConfig := Some example_config\<rparr>))))) = ''p2'' \<and>
   info_StateConfig (se_Info (last (xdb_sys_async_state_executions
     (fst (StartProcess example_db 5 ''p2''
             (example_start_request\<lparr>req_ProcessId := ''other'',
                                     req_StartStateConfig := Some example_config\<rparr>)))))) = None \<and>
   info_StateConfig (prep_Info example_prepare) = None \<and>
   processWaitUntilTaskFailed nan_machine 0 50
       (example_task\<lparr>task_TaskType := ImmediateTaskTypeWaitUntil\<rparr>) example_prepare =
     Inl NilPointerDereference \<and>
   processExecuteTaskFailed nan_machine 0 50 example_task example_prepare =
     Inl NilPointerDereference"
  by (simp add: example_db_defs example_config_def example_start_request_def
        example_task_def example_prepare_def example_info_def
        StartProcess_def InsertLatestProcessExecution_def InsertAsyncStateExecution_def
        InsertImmediateTask_def InsertProcessExecution_def IsDupEntryError_def
        GetSkipWaitUntil_def DefaultShardId_def orDefault_def Let_def
        processExecuteTaskFailed_def processWaitUntilTaskFailed_def
        onWorkerFailure_def checkRetry_def countAttempt_def)

end
